theory Spec2Isabelle
  imports Complex_Main
begin

section \<open>Gradient based variational solvers of surpbayes\<close>

text \<open>
  A shallow embedding of \<^verbatim>\<open>surpbayes/bayes/gradient_based/gradient_based_solver.py\<close>:
  the vanilla engine \<^verbatim>\<open>GDBayesSolver\<close> and the robust engine
  \<^verbatim>\<open>GradientBasedBayesSolver\<close> (momentum, frozen coordinates, rollback of bad steps).

  Numbers: numpy arrays of floats are lists of reals (a parameter is the flattened array,
  so \<^verbatim>\<open>flatten\<close> and \<^verbatim>\<open>reshape\<close> are the identity); rounding is not modelled.
  The one place where the source relies on a non-finite float, \<^verbatim>\<open>prev_score = np.inf\<close>,
  is modelled with an explicit type of extended floats and the IEEE rules for subtraction,
  multiplication and comparison.
\<close>

subsection \<open>Python exceptions and indexing\<close>

datatype error = IndexError | FullMemory

definition py_index :: "'a list \<Rightarrow> nat \<Rightarrow> error + 'a" where
  \<comment> \<open>\<^verbatim>\<open>xs[i]\<close> for an index that is not negative\<close>
  "py_index xs i = (if i < length xs then Inr (xs ! i) else Inl IndexError)"

definition py_last :: "'a list \<Rightarrow> error + 'a" where
  \<comment> \<open>\<^verbatim>\<open>xs[-1]\<close>\<close>
  "py_last xs = (case xs of [] \<Rightarrow> Inl IndexError | _ # _ \<Rightarrow> Inr (last xs))"

definition py_first :: "'a list \<Rightarrow> error + 'a" where
  \<comment> \<open>\<^verbatim>\<open>xs[0]\<close>\<close>
  "py_first xs = (case xs of [] \<Rightarrow> Inl IndexError | x # _ \<Rightarrow> Inr x)"

subsection \<open>Floats with infinities\<close>

datatype xfloat = Fin real | PInf | MInf | NaN

fun xminus :: "xfloat \<Rightarrow> xfloat \<Rightarrow> xfloat" where
  "xminus NaN _ = NaN"
| "xminus _ NaN = NaN"
| "xminus (Fin a) (Fin b) = Fin (a - b)"
| "xminus (Fin a) PInf = MInf"
| "xminus (Fin a) MInf = PInf"
| "xminus PInf PInf = NaN"
| "xminus PInf _ = PInf"
| "xminus MInf MInf = NaN"
| "xminus MInf _ = MInf"

fun xtimes :: "xfloat \<Rightarrow> xfloat \<Rightarrow> xfloat" where
  "xtimes NaN _ = NaN"
| "xtimes _ NaN = NaN"
| "xtimes (Fin a) (Fin b) = Fin (a * b)"
| "xtimes (Fin a) PInf = (if a = 0 then NaN else if 0 < a then PInf else MInf)"
| "xtimes (Fin a) MInf = (if a = 0 then NaN else if 0 < a then MInf else PInf)"
| "xtimes PInf (Fin b) = (if b = 0 then NaN else if 0 < b then PInf else MInf)"
| "xtimes MInf (Fin b) = (if b = 0 then NaN else if 0 < b then MInf else PInf)"
| "xtimes PInf PInf = PInf"
| "xtimes PInf MInf = MInf"
| "xtimes MInf PInf = MInf"
| "xtimes MInf MInf = PInf"

fun xgt :: "xfloat \<Rightarrow> xfloat \<Rightarrow> bool" where
  \<comment> \<open>\<^verbatim>\<open>a > b\<close>: every comparison with nan is false\<close>
  "xgt NaN _ = False"
| "xgt _ NaN = False"
| "xgt (Fin a) (Fin b) = (b < a)"
| "xgt (Fin a) PInf = False"
| "xgt (Fin a) MInf = True"
| "xgt PInf PInf = False"
| "xgt PInf _ = True"
| "xgt MInf _ = False"

subsection \<open>Arrays\<close>

type_synonym vec = "real list"
type_synonym sample = "real list"

definition zeros :: "nat \<Rightarrow> vec" where
  \<comment> \<open>\<^verbatim>\<open>np.zeros(shape)\<close>\<close>
  "zeros d = replicate d 0"

definition vadd :: "vec \<Rightarrow> vec \<Rightarrow> vec" where
  \<comment> \<open>\<^verbatim>\<open>a + b\<close> on two arrays of one shape\<close>
  "vadd a b = map2 (+) a b"

definition smult :: "real \<Rightarrow> vec \<Rightarrow> vec" where
  \<comment> \<open>\<^verbatim>\<open>c * a\<close> for a scalar and an array\<close>
  "smult c a = map (\<lambda>x. c * x) a"

definition set_zero :: "nat list \<Rightarrow> vec \<Rightarrow> vec" where
  \<comment> \<open>\<^verbatim>\<open>a[idx] = 0.0\<close> for a list of indices\<close>
  "set_zero idx a = fold (\<lambda>i b. b[i := 0]) idx a"

definition sdiv :: "vec \<Rightarrow> real \<Rightarrow> vec" where
  \<comment> \<open>\<^verbatim>\<open>a / c\<close> for an array and a scalar\<close>
  "sdiv a c = map (\<lambda>x. x / c) a"

definition mean :: "real list \<Rightarrow> real" where
  \<comment> \<open>\<^verbatim>\<open>np.mean(vals)\<close>; of an empty array numpy gives nan, which a real cannot say\<close>
  "mean xs = sum_list xs / real (length xs)"

definition tensordot0 :: "nat \<Rightarrow> real list \<Rightarrow> vec list \<Rightarrow> vec" where
  \<comment> \<open>\<^verbatim>\<open>np.tensordot(c, g, (0, 0))\<close>: the sum over the first axis of \<open>c[i] * g[i]\<close>,
      an array of the shape \<open>d\<close> of the rows of \<open>g\<close>\<close>
  "tensordot0 d c g = foldr vadd (map2 smult c g) (zeros d)"

subsection \<open>Accumulators of samples\<close>

text \<open>
  Modelled from the spec: the classes \<^verbatim>\<open>AccuSampleVal\<close> and \<^verbatim>\<open>AccuSampleValDens\<close>
  are imported by the solver and are not among the sources. The spec: an accumulator
  holds generations up to a fixed total capacity; \<^verbatim>\<open>add\<close> appends one generation and
  fails if appending would exceed the capacity strictly; \<^verbatim>\<open>extend_memory(extra)\<close>
  raises the capacity by \<^verbatim>\<open>extra\<close>; \<^verbatim>\<open>suppr_gen(g)\<close> removes the \<^verbatim>\<open>g\<close> most recent
  generations and removes all of them when there are fewer.
\<close>

record AccuSampleVal =
  val_gens :: "(sample list \<times> real list) list"
  val_n_tot :: nat

record AccuSampleValDens =
  dens_gens :: "(sample list \<times> real list \<times> real list) list"
  dens_n_tot :: nat

definition val_n_filled :: "AccuSampleVal \<Rightarrow> nat" where
  "val_n_filled a = sum_list (map (\<lambda>g. length (fst g)) (val_gens a))"

definition dens_n_filled :: "AccuSampleValDens \<Rightarrow> nat" where
  "dens_n_filled a = sum_list (map (\<lambda>g. length (fst g)) (dens_gens a))"

definition new_val :: "nat \<Rightarrow> AccuSampleVal" where
  \<comment> \<open>\<^verbatim>\<open>AccuSampleVal(sample_shape, n_tot)\<close>\<close>
  "new_val n = \<lparr>val_gens = [], val_n_tot = n\<rparr>"

definition new_dens :: "nat \<Rightarrow> AccuSampleValDens" where
  \<comment> \<open>\<^verbatim>\<open>AccuSampleValDens(sample_shape, n_tot)\<close>\<close>
  "new_dens n = \<lparr>dens_gens = [], dens_n_tot = n\<rparr>"

definition val_add :: "sample list \<Rightarrow> real list \<Rightarrow> AccuSampleVal \<Rightarrow> error + AccuSampleVal" where
  "val_add smp vals a =
     (if val_n_tot a < val_n_filled a + length smp then Inl FullMemory
      else Inr (a\<lparr>val_gens := val_gens a @ [(smp, vals)]\<rparr>))"

definition dens_add ::
  "sample list \<Rightarrow> real list \<Rightarrow> real list \<Rightarrow> AccuSampleValDens \<Rightarrow> error + AccuSampleValDens" where
  "dens_add smp l_dens vals a =
     (if dens_n_tot a < dens_n_filled a + length smp then Inl FullMemory
      else Inr (a\<lparr>dens_gens := dens_gens a @ [(smp, l_dens, vals)]\<rparr>))"

definition extend_memory :: "nat \<Rightarrow> AccuSampleValDens \<Rightarrow> AccuSampleValDens" where
  "extend_memory extra a = a\<lparr>dens_n_tot := dens_n_tot a + extra\<rparr>"

definition suppr_gen :: "nat \<Rightarrow> AccuSampleValDens \<Rightarrow> AccuSampleValDens" where
  "suppr_gen g a = a\<lparr>dens_gens := take (length (dens_gens a) - g) (dens_gens a)\<rparr>"

subsection \<open>Trajectory logs\<close>

text \<open>
  Modelled from the spec: the class \<^verbatim>\<open>HistVILog\<close> is imported by the solver and is not
  among the sources. The spec: a plain sequential log of records (parameter, score, KL,
  mean) in the order they were appended; \<^verbatim>\<open>add1\<close> appends one record; \<^verbatim>\<open>suppr(n)\<close>
  removes and returns the \<^verbatim>\<open>n\<close> most recent records, oldest first, and fails with an
  out-of-range signal if fewer than \<^verbatim>\<open>n\<close> exist; \<^verbatim>\<open>proba_pars\<close> and \<^verbatim>\<open>VI_scores\<close>
  return the full ordered histories, or the last \<^verbatim>\<open>n\<close> entries. \<^verbatim>\<open>add\<close> takes what
  \<^verbatim>\<open>suppr\<close> returned and appends it.
\<close>

record vi_record =
  proba_par :: vec
  score :: real
  KL :: real
  mean_loss :: real

type_synonym HistVILog = "vi_record list"

definition add1 :: "vec \<Rightarrow> real \<Rightarrow> real \<Rightarrow> real \<Rightarrow> HistVILog \<Rightarrow> HistVILog" where
  "add1 p s kl m h = h @ [\<lparr>proba_par = p, score = s, KL = kl, mean_loss = m\<rparr>]"

definition add_recs :: "vi_record list \<Rightarrow> HistVILog \<Rightarrow> HistVILog" where
  \<comment> \<open>\<^verbatim>\<open>add\<close>\<close>
  "add_recs rs h = h @ rs"

definition suppr :: "nat \<Rightarrow> HistVILog \<Rightarrow> error + (vi_record list \<times> HistVILog)" where
  \<comment> \<open>the removed records and the log that is left\<close>
  "suppr n h =
     (if length h < n then Inl IndexError
      else Inr (drop (length h - n) h, take (length h - n) h))"

definition proba_pars :: "HistVILog \<Rightarrow> vec list" where
  "proba_pars h = map proba_par h"

definition VI_scores :: "HistVILog \<Rightarrow> real list" where
  "VI_scores h = map score h"

definition VI_scores_last :: "nat \<Rightarrow> HistVILog \<Rightarrow> real list" where
  \<comment> \<open>\<^verbatim>\<open>VI_scores(n)\<close>: the last \<open>n\<close> scores, fewer when the log is shorter\<close>
  "VI_scores_last n h = drop (length h - n) (map score h)"

subsection \<open>The external collaborators\<close>

text \<open>
  The distribution family, the loss and the scaffold of \<^verbatim>\<open>BayesSolver\<close> are outside the
  sources; the engines are parameterised by them. A distribution is identified by the
  parameter it was built from. Drawing is random in the program: here the \<open>i\<close>-th sample
  of the batch drawn at step \<open>t\<close> from the distribution of parameter \<open>p\<close> is
  \<open>draw t p i\<close>, so \<^verbatim>\<open>proba(n)\<close> is a batch of \<open>n\<close> samples. The gradients returned by
  \<open>grad_score\<close>, \<open>grad_kl\<close> and \<open>log_dens_der\<close> are arrays of the parameter's shape by
  their contract; the theorems that need it say so (\<open>shapes_ok\<close>).
\<close>

datatype proba = Proba (param_of: vec)

record env =
  proba_param_shape :: nat
  draw :: "nat \<Rightarrow> vec \<Rightarrow> nat \<Rightarrow> sample"
  loss :: "sample \<Rightarrow> real"
  log_dens :: "vec \<Rightarrow> sample \<Rightarrow> real"
  log_dens_der :: "vec \<Rightarrow> sample \<Rightarrow> vec"
  grad_kl_of :: "vec \<Rightarrow> vec \<Rightarrow> nat \<Rightarrow> vec \<times> real"
  grad_score :: "AccuSampleValDens \<Rightarrow> vec \<Rightarrow> nat option \<Rightarrow> real \<Rightarrow> vec \<times> real \<times> real"
  check_conv :: "vec \<Rightarrow> vec \<Rightarrow> bool"
  ppf :: "real \<Rightarrow> xfloat"

definition proba_map :: "vec \<Rightarrow> proba" where
  "proba_map p = Proba p"

definition sample_of :: "env \<Rightarrow> nat \<Rightarrow> proba \<Rightarrow> nat \<Rightarrow> sample list" where
  \<comment> \<open>\<^verbatim>\<open>proba(n)\<close> at step \<open>t\<close>\<close>
  "sample_of E t pr n = map (draw E t (param_of pr)) [0..<n]"

datatype warning = ProbBadGrad xfloat xfloat xfloat
  \<comment> \<open>previous score, new score, uncertainty: what the message of the warning prints\<close>

datatype message = Score_at nat real | No_score_assessed nat

subsection \<open>Construction\<close>

text \<open>
  The arguments of the constructors. \<^verbatim>\<open>per_step\<close> is the list of the batch sizes of
  the scheduled steps (the scaffold expands a single size into \<^verbatim>\<open>chain_length\<close>
  copies), \<^verbatim>\<open>post_param\<close> the parameter the run starts from, and \<^verbatim>\<open>prev_eval\<close> an
  accumulator of the class the engine works with. The vanilla constructor takes the
  first ten and \<^verbatim>\<open>n_grad_kl\<close>.
\<close>

record 'a config =
  c_prior_param :: vec
  c_post_param :: vec
  c_temperature :: real
  c_prev_eval :: "'a option"
  c_index_train :: "int list option"
  c_eta :: real
  c_chain_length :: nat
  c_per_step :: "nat list"
  c_k :: "nat option"
  c_gen_decay :: real
  c_momentum :: real
  c_refuse_conf :: real
  c_corr_eta :: real
  c_n_grad_kl :: nat

definition no_train_of :: "nat \<Rightarrow> int list option \<Rightarrow> nat list" where
  \<comment> \<open>\<^verbatim>\<open>[]\<close> when \<^verbatim>\<open>index_train is None\<close>, else
      \<^verbatim>\<open>list(set(range(n_param)).difference(index_train))\<close>\<close>
  "no_train_of n_param it =
     (case it of None \<Rightarrow> []
      | Some tr \<Rightarrow> filter (\<lambda>i. int i \<notin> set tr) [0..<n_param])"

definition train_of :: "nat \<Rightarrow> int list option \<Rightarrow> int list" where
  \<comment> \<open>\<^verbatim>\<open>list(range(n_param))\<close> when \<^verbatim>\<open>index_train is None\<close>, else \<^verbatim>\<open>list(index_train)\<close>\<close>
  "train_of n_param it =
     (case it of None \<Rightarrow> map int [0..<n_param] | Some tr \<Rightarrow> tr)"

subsection \<open>The robust engine: GradientBasedBayesSolver\<close>

text \<open>
  The fields of \<^verbatim>\<open>self\<close>. \<open>post_param\<close> is \<^verbatim>\<open>self._post_param\<close> and \<open>post\<close> is
  \<^verbatim>\<open>self._post\<close>, the cached distribution. \<open>warned\<close> is the list of the warnings issued
  so far and \<open>printed\<close> what \<^verbatim>\<open>msg_end_step\<close> has printed: issuing a warning and
  printing return normally, so they are fields of the state and not errors.
\<close>

record solver =
  temperature :: real
  per_step :: "nat list"
  chain_length :: nat
  n_grad_kl :: nat
  prior_param :: vec
  index_no_train :: "nat list"
  index_train :: "int list"
  eta :: real
  momentum :: real
  refuse_factor :: xfloat
  corr_eta :: real
  k :: "nat option"
  gen_decay :: real
  ini_post_param :: vec
  post_param :: vec
  post :: proba
  v :: vec
  prev_score :: xfloat
  count :: nat
  converged :: bool
  accu :: AccuSampleValDens
  stable_accu :: AccuSampleVal
  hist_log :: HistVILog
  bin_log :: HistVILog
  all_log_vi :: HistVILog
  warned :: "warning list"
  printed :: "message list"

definition set_up_accu ::
  "nat list \<Rightarrow> AccuSampleValDens option \<Rightarrow> AccuSampleValDens \<times> AccuSampleVal" where
  \<comment> \<open>the two accumulators it stores: \<^verbatim>\<open>self.accu\<close> and \<^verbatim>\<open>self.stable_accu\<close>\<close>
  "set_up_accu pstep prev_eval =
     ((case prev_eval of
         None \<Rightarrow> new_dens (sum_list pstep)
       | Some a \<Rightarrow> extend_memory (sum_list pstep) a),
      new_val (sum_list pstep))"

definition GB_init :: "env \<Rightarrow> AccuSampleValDens config \<Rightarrow> solver" where
  \<comment> \<open>\<^verbatim>\<open>GradientBasedBayesSolver.__init__\<close>: the vanilla constructor is called with
      \<^verbatim>\<open>eta * (1 - momentum)\<close> for its \<^verbatim>\<open>eta\<close>, then the fields of the robust engine
      are set. The scaffold's constructor (not among the sources) stores the arguments,
      starts the step counter at 0 with an empty primary log, and calls
      \<^verbatim>\<open>set_up_accu\<close>.\<close>
  "GB_init E c =
     (let n_param = length (c_prior_param c);
          (a, sa) = set_up_accu (c_per_step c) (c_prev_eval c)
      in \<lparr>temperature = c_temperature c,
          per_step = c_per_step c,
          chain_length = c_chain_length c,
          n_grad_kl = c_n_grad_kl c,
          prior_param = c_prior_param c,
          index_no_train = no_train_of n_param (c_index_train c),
          index_train = train_of n_param (c_index_train c),
          eta = c_eta c * (1 - c_momentum c),
          momentum = c_momentum c,
          refuse_factor = ppf E (c_refuse_conf c),
          corr_eta = c_corr_eta c,
          k = c_k c,
          gen_decay = c_gen_decay c,
          ini_post_param = c_post_param c,
          post_param = c_post_param c,
          post = proba_map (c_post_param c),
          v = zeros (proba_param_shape E),
          prev_score = PInf,
          count = 0,
          converged = False,
          accu = a,
          stable_accu = sa,
          hist_log = [],
          bin_log = [],
          all_log_vi = [],
          warned = [],
          printed = []\<rparr>)"

definition gen_sample :: "env \<Rightarrow> solver \<Rightarrow> error + solver" where
  "gen_sample E s =
     (case py_index (per_step s) (count s) of
        Inl e \<Rightarrow> Inl e
      | Inr n \<Rightarrow>
          let smp = sample_of E (count s) (post s) n;
              l_dens = map (log_dens E (param_of (post s))) smp;
              vals = map (loss E) smp
          in (case dens_add smp l_dens vals (accu s) of
                Inl e \<Rightarrow> Inl e
              | Inr a \<Rightarrow>
                  (case val_add smp vals (stable_accu s) of
                     Inl e \<Rightarrow> Inl e
                   | Inr sa \<Rightarrow> Inr (s\<lparr>accu := a, stable_accu := sa\<rparr>))))"

definition is_bad_step :: "solver \<Rightarrow> xfloat \<Rightarrow> xfloat \<Rightarrow> bool" where
  \<comment> \<open>\<^verbatim>\<open>score_VI - self.prev_score > self.refuse_factor * score_UQ\<close>\<close>
  "is_bad_step s score_VI score_UQ =
     xgt (xminus score_VI (prev_score s)) (xtimes (refuse_factor s) score_UQ)"

definition check_bad_grad :: "solver \<Rightarrow> xfloat \<Rightarrow> xfloat \<Rightarrow> bool \<times> solver" where
  "check_bad_grad s score_VI score_UQ =
     (let is_bad = is_bad_step s score_VI score_UQ
      in if is_bad
         then (is_bad, s\<lparr>warned := warned s @ [ProbBadGrad (prev_score s) score_VI score_UQ]\<rparr>)
         else (is_bad, s))"

definition get_score_grad :: "env \<Rightarrow> solver \<Rightarrow> vec \<times> real \<times> real" where
  "get_score_grad E s = grad_score E (accu s) (post_param s) (k s) (gen_decay s)"

definition mod_accu_bad_step :: "solver \<Rightarrow> solver" where
  "mod_accu_bad_step s = s\<lparr>accu := suppr_gen 2 (accu s)\<rparr>"

definition restore_initial :: "solver \<Rightarrow> solver" where
  \<comment> \<open>the handler of \<^verbatim>\<open>except IndexError\<close> in \<^verbatim>\<open>update\<close>\<close>
  "restore_initial s =
     s\<lparr>post_param := ini_post_param s,
       post := proba_map (ini_post_param s),
       prev_score := PInf\<rparr>"

definition restore_last :: "solver \<Rightarrow> solver" where
  \<comment> \<open>the \<^verbatim>\<open>try\<close> block of \<^verbatim>\<open>update\<close>; an IndexError at either \<^verbatim>\<open>[-1]\<close> runs the handler,
      which overwrites the three fields\<close>
  "restore_last s =
     (case py_last (proba_pars (hist_log s)) of
        Inl e \<Rightarrow> restore_initial s
      | Inr p \<Rightarrow>
          (case py_last (VI_scores (hist_log s)) of
             Inl e \<Rightarrow> restore_initial s
           | Inr sc \<Rightarrow> s\<lparr>post_param := p, post := proba_map p, prev_score := Fin sc\<rparr>))"

definition super_msg_end_step :: "solver \<Rightarrow> error + solver" where
  \<comment> \<open>Modelled from the spec: \<^verbatim>\<open>BayesSolver.msg_end_step\<close> is not among the sources. It
      reports the most recent score of the primary log, which does not exist when the
      log is empty (IndexError).\<close>
  "super_msg_end_step s =
     (case py_first (VI_scores_last 1 (hist_log s)) of
        Inl e \<Rightarrow> Inl e
      | Inr sc \<Rightarrow> Inr (s\<lparr>printed := printed s @ [Score_at (count s) sc]\<rparr>))"

definition msg_end_step :: "solver \<Rightarrow> error + solver" where
  "msg_end_step s =
     (case super_msg_end_step s of
        Inl IndexError \<Rightarrow> Inr (s\<lparr>printed := printed s @ [No_score_assessed (count s)]\<rparr>)
      | Inl e \<Rightarrow> Inl e
      | Inr s' \<Rightarrow> Inr s')"

definition rollback :: "env \<Rightarrow> solver \<Rightarrow> error + solver" where
  \<comment> \<open>the branch of \<^verbatim>\<open>update\<close> for a bad step\<close>
  "rollback E s =
     (let s1 = s\<lparr>v := zeros (proba_param_shape E)\<rparr>;
          s2 = s1\<lparr>eta := eta s1 * corr_eta s1\<rparr>;
          s3 = mod_accu_bad_step s2
      in (case suppr 1 (hist_log s3) of
            Inl e \<Rightarrow> Inl e
          | Inr (removed, rest) \<Rightarrow>
              Inr (restore_last
                     (s3\<lparr>hist_log := rest, bin_log := add_recs removed (bin_log s3)\<rparr>))))"

definition check_convergence :: "env \<Rightarrow> vec \<Rightarrow> solver \<Rightarrow> solver" where
  \<comment> \<open>the scaffold's test on the proposed parameter (not among the sources): it sets
      the converged flag and nothing else\<close>
  "check_convergence E new_post_param s =
     s\<lparr>converged := check_conv E (post_param s) new_post_param\<rparr>"

definition accept :: "env \<Rightarrow> vec \<Rightarrow> real \<Rightarrow> vec \<Rightarrow> real \<Rightarrow> real \<Rightarrow> solver \<Rightarrow> solver" where
  \<comment> \<open>the branch of \<^verbatim>\<open>update\<close> for a step that is not bad\<close>
  "accept E der_score m_score der_KL kl score_VI s =
     (let s1 = s\<lparr>hist_log := add1 (post_param s) score_VI kl m_score (hist_log s)\<rparr>;
          v_new = smult (- eta s1) (vadd der_score (smult (temperature s1) der_KL));
          v_new_flat = set_zero (index_no_train s1) v_new;
          s2 = s1\<lparr>v := vadd v_new_flat (smult (momentum s1) (v s1))\<rparr>;
          new_post_param = vadd (post_param s2) (v s2);
          s3 = check_convergence E new_post_param s2
      in s3\<lparr>post_param := new_post_param,
            prev_score := Fin score_VI,
            post := proba_map new_post_param\<rparr>)"

definition update :: "env \<Rightarrow> solver \<Rightarrow> error + solver" where
  \<comment> \<open>\<^verbatim>\<open>GradientBasedBayesSolver.update\<close>\<close>
  "update E s =
     (case gen_sample E s of
        Inl e \<Rightarrow> Inl e
      | Inr s1 \<Rightarrow>
          (case get_score_grad E s1 of (der_score, m_score, score_UQ) \<Rightarrow>
           (case grad_kl_of E (prior_param s1) (post_param s1) (n_grad_kl s1) of (der_KL, kl) \<Rightarrow>
            (let score_VI = m_score + temperature s1 * kl
             in (case check_bad_grad s1 (Fin score_VI) (Fin score_UQ) of (is_bad, s2) \<Rightarrow>
                 (case (if is_bad then rollback E s2
                        else Inr (accept E der_score m_score der_KL kl score_VI s2)) of
                    Inl e \<Rightarrow> Inl e
                  | Inr s3 \<Rightarrow> msg_end_step (s3\<lparr>count := count s3 + 1\<rparr>)))))))"

fun updates :: "env \<Rightarrow> nat \<Rightarrow> solver \<Rightarrow> error + solver" where
  \<comment> \<open>\<open>n\<close> calls of \<^verbatim>\<open>update\<close> one after the other; an exception ends the run\<close>
  "updates E 0 s = Inr s"
| "updates E (Suc n) s =
     (case update E s of Inl e \<Rightarrow> Inl e | Inr s' \<Rightarrow> updates E n s')"

subsection \<open>The result of the robust engine\<close>

record OptimResultVIGB =
  opti_param :: vec
  res_converged :: bool
  opti_score :: real
  hist_param :: "vec list"
  hist_score :: "real list"
  end_param :: vec
  log_vi :: HistVILog
  bin_log_vi :: HistVILog
  sample_val :: AccuSampleValDens

definition process_result :: "solver \<Rightarrow> error + OptimResultVIGB" where
  \<comment> \<open>\<^verbatim>\<open>GradientBasedBayesSolver.process_result\<close>: the record holds the nine arguments
      the source passes to the constructor of the result\<close>
  "process_result s =
     (case py_first (VI_scores_last 1 (hist_log s)) of
        Inl e \<Rightarrow> Inl e
      | Inr sc \<Rightarrow>
          Inr \<lparr>opti_param = post_param s,
               res_converged = converged s,
               opti_score = sc,
               hist_param = proba_pars (hist_log s),
               hist_score = VI_scores (hist_log s),
               end_param = post_param s,
               log_vi = hist_log s,
               bin_log_vi = bin_log s,
               sample_val = accu s\<rparr>)"

subsection \<open>The vanilla engine: GDBayesSolver\<close>

record gd_solver =
  gd_temperature :: real
  gd_per_step :: "nat list"
  gd_chain_length :: nat
  gd_n_grad_kl :: nat
  gd_prior_param :: vec
  gd_index_no_train :: "nat list"
  gd_index_train :: "int list"
  gd_eta :: real
  gd_post_param :: vec
  gd_post :: proba
  gd_count :: nat
  gd_converged :: bool
  gd_accu :: AccuSampleVal
  gd_hist_log :: HistVILog
  gd_printed :: "message list"

definition gd_set_up_accu :: "nat list \<Rightarrow> AccuSampleVal option \<Rightarrow> AccuSampleVal" where
  \<comment> \<open>Modelled from the spec: \<^verbatim>\<open>BayesSolver.set_up_accu\<close> is not among the sources. The
      capacity is the total of the scheduled batch sizes, and it is raised by as much
      when the run resumes from previous evaluations.\<close>
  "gd_set_up_accu pstep prev_eval =
     (case prev_eval of
        None \<Rightarrow> new_val (sum_list pstep)
      | Some a \<Rightarrow> a\<lparr>val_n_tot := val_n_tot a + sum_list pstep\<rparr>)"

definition GD_init :: "env \<Rightarrow> AccuSampleVal config \<Rightarrow> gd_solver" where
  \<comment> \<open>\<^verbatim>\<open>GDBayesSolver.__init__\<close>\<close>
  "GD_init E c =
     (let n_param = length (c_prior_param c)
      in \<lparr>gd_temperature = c_temperature c,
          gd_per_step = c_per_step c,
          gd_chain_length = c_chain_length c,
          gd_n_grad_kl = c_n_grad_kl c,
          gd_prior_param = c_prior_param c,
          gd_index_no_train = no_train_of n_param (c_index_train c),
          gd_index_train = train_of n_param (c_index_train c),
          gd_eta = c_eta c,
          gd_post_param = c_post_param c,
          gd_post = proba_map (c_post_param c),
          gd_count = 0,
          gd_converged = False,
          gd_accu = gd_set_up_accu (c_per_step c) (c_prev_eval c),
          gd_hist_log = [],
          gd_printed = []\<rparr>)"

definition gd_super_msg_end_step :: "gd_solver \<Rightarrow> error + gd_solver" where
  \<comment> \<open>Modelled from the spec: \<^verbatim>\<open>BayesSolver.msg_end_step\<close>, as for the robust engine.\<close>
  "gd_super_msg_end_step s =
     (case py_first (VI_scores_last 1 (gd_hist_log s)) of
        Inl e \<Rightarrow> Inl e
      | Inr sc \<Rightarrow> Inr (s\<lparr>gd_printed := gd_printed s @ [Score_at (gd_count s) sc]\<rparr>))"

definition gd_msg_end_step :: "gd_solver \<Rightarrow> error + gd_solver" where
  "gd_msg_end_step s =
     (case gd_super_msg_end_step s of
        Inl IndexError \<Rightarrow>
          Inr (s\<lparr>gd_printed := gd_printed s @ [No_score_assessed (gd_count s)]\<rparr>)
      | Inl e \<Rightarrow> Inl e
      | Inr s' \<Rightarrow> Inr s')"

definition gd_update :: "env \<Rightarrow> gd_solver \<Rightarrow> error + gd_solver" where
  \<comment> \<open>\<^verbatim>\<open>GDBayesSolver.update\<close>. Assigning \<^verbatim>\<open>self.post_param\<close> goes through the scaffold's
      property, which stores the parameter and the distribution built from it.\<close>
  "gd_update E s =
     (case py_index (gd_per_step s) (gd_count s) of
        Inl e \<Rightarrow> Inl e
      | Inr n_step \<Rightarrow>
          (let samples = sample_of E (gd_count s) (gd_post s) n_step;
               vals = map (loss E) samples
           in (case val_add samples vals (gd_accu s) of
                 Inl e \<Rightarrow> Inl e
               | Inr a \<Rightarrow>
                   (let s1 = s\<lparr>gd_accu := a\<rparr>;
                        mval = mean vals;
                        grads = map (log_dens_der E (gd_post_param s1)) samples;
                        grad_expct =
                          sdiv (tensordot0 (length (gd_post_param s1))
                                  (map (\<lambda>x. x - mval) vals) grads)
                               (real n_step)
                    in (case grad_kl_of E (gd_prior_param s1) (gd_post_param s1)
                               (gd_n_grad_kl s1) of (grad_kl, kl) \<Rightarrow>
                        (let step = smult (- gd_eta s1)
                                      (vadd grad_expct (smult (gd_temperature s1) grad_kl));
                             score_VI = mval + gd_temperature s1 * kl;
                             s2 = s1\<lparr>gd_hist_log :=
                                       add1 (gd_post_param s1) score_VI kl mval (gd_hist_log s1)\<rparr>;
                             new_post_param = vadd (gd_post_param s2) step;
                             s3 = s2\<lparr>gd_converged :=
                                       check_conv E (gd_post_param s2) new_post_param\<rparr>;
                             s4 = s3\<lparr>gd_post_param := new_post_param,
                                     gd_post := proba_map new_post_param\<rparr>
                         in gd_msg_end_step (s4\<lparr>gd_count := gd_count s4 + 1\<rparr>)))))))"

subsection \<open>Notation for the statements\<close>

text \<open>
  Three abbreviations used to state what one call of \<^verbatim>\<open>update\<close> does: the batch that the
  call draws, the solver once \<^verbatim>\<open>gen_sample\<close> has stored that batch in both accumulators,
  and the message \<^verbatim>\<open>msg_end_step\<close> prints for a step counter and a primary log.
\<close>

definition batch :: "env \<Rightarrow> solver \<Rightarrow> sample list" where
  "batch E s = sample_of E (count s) (post s) (per_step s ! count s)"

definition with_batch :: "env \<Rightarrow> solver \<Rightarrow> solver" where
  "with_batch E s =
     s\<lparr>accu := (accu s)\<lparr>dens_gens := dens_gens (accu s) @
            [(batch E s, map (log_dens E (param_of (post s))) (batch E s),
              map (loss E) (batch E s))]\<rparr>,
       stable_accu := (stable_accu s)\<lparr>val_gens := val_gens (stable_accu s) @
            [(batch E s, map (loss E) (batch E s))]\<rparr>\<rparr>"

definition end_msg :: "nat \<Rightarrow> HistVILog \<Rightarrow> message" where
  "end_msg n h =
     (case VI_scores_last 1 h of [] \<Rightarrow> No_score_assessed n | sc # _ \<Rightarrow> Score_at n sc)"

text \<open>
  Two predicates for the statements about whole runs. \<open>prev_eval_ok\<close>: previous
  evaluations handed to the constructor respect their own capacity (the accumulator's
  invariant in the spec). \<open>run_inv\<close>: the step counter is within the schedule, each
  accumulator has room for the batches still scheduled, and a solver with an empty
  primary log has \<open>prev_score = +\<infinity>\<close>.
\<close>

definition prev_eval_ok :: "AccuSampleValDens config \<Rightarrow> bool" where
  "prev_eval_ok c =
     (case c_prev_eval c of None \<Rightarrow> True | Some a \<Rightarrow> dens_n_filled a \<le> dens_n_tot a)"

definition run_inv :: "solver \<Rightarrow> bool" where
  "run_inv s \<longleftrightarrow>
     count s \<le> length (per_step s) \<and>
     dens_n_filled (accu s) + sum_list (drop (count s) (per_step s)) \<le> dens_n_tot (accu s) \<and>
     val_n_filled (stable_accu s) + sum_list (drop (count s) (per_step s))
       \<le> val_n_tot (stable_accu s) \<and>
     (hist_log s = [] \<longrightarrow> prev_score s = PInf)"

text \<open>
  Two predicates for the frozen coordinates. \<open>shapes_ok\<close>: the collaborators return
  gradients of the shape of the parameter they are given. \<open>frozen_inv\<close>: the parameter
  and the momentum have the shape \<open>d\<close>, the momentum is zero and the parameter has its
  initial value at every frozen index, and so has the parameter of every record of the
  primary log.
\<close>

definition shapes_ok :: "env \<Rightarrow> nat \<Rightarrow> bool" where
  "shapes_ok E d \<longleftrightarrow>
     (\<forall>a p k g. length p = d \<longrightarrow> length (fst (grad_score E a p k g)) = d) \<and>
     (\<forall>pr p n. length p = d \<longrightarrow> length (fst (grad_kl_of E pr p n)) = d)"

definition frozen_inv :: "nat \<Rightarrow> vec \<Rightarrow> solver \<Rightarrow> bool" where
  "frozen_inv d p0 s \<longleftrightarrow>
     length (post_param s) = d \<and> length (v s) = d \<and> ini_post_param s = p0 \<and>
     length p0 = d \<and>
     (\<forall>i \<in> set (index_no_train s). i < d \<and> v s ! i = 0 \<and> post_param s ! i = p0 ! i) \<and>
     (\<forall>r \<in> set (hist_log s).
        length (proba_par r) = d \<and>
        (\<forall>i \<in> set (index_no_train s). proba_par r ! i = p0 ! i))"

text \<open>
  The same for the vanilla engine: the batch that a call of \<^verbatim>\<open>GDBayesSolver.update\<close>
  draws, and the estimate \<^verbatim>\<open>grad_expct\<close> it computes from it.
\<close>

definition gd_batch :: "env \<Rightarrow> gd_solver \<Rightarrow> sample list" where
  "gd_batch E s = sample_of E (gd_count s) (gd_post s) (gd_per_step s ! gd_count s)"

definition gd_grad_expct :: "env \<Rightarrow> gd_solver \<Rightarrow> vec" where
  "gd_grad_expct E s =
     sdiv (tensordot0 (length (gd_post_param s))
             (map (\<lambda>x. x - mean (map (loss E) (gd_batch E s))) (map (loss E) (gd_batch E s)))
             (map (log_dens_der E (gd_post_param s)) (gd_batch E s)))
          (real (gd_per_step s ! gd_count s))"

subsection \<open>A small run\<close>

text \<open>
  A family with two coordinates of which the second is frozen, and a schedule of three
  steps of one sample each. The score estimate of the collaborator is 0 at the initial
  parameter and 10 elsewhere, so the first step is accepted, the second is bad and
  exhausts the primary log, and the third is accepted again.
\<close>

definition ex_env :: env where
  "ex_env = \<lparr>proba_param_shape = 2,
             draw = (\<lambda>t p i. [real t, real i]),
             loss = (\<lambda>x. sum_list x),
             log_dens = (\<lambda>p x. 0),
             log_dens_der = (\<lambda>p x. [1, 1]),
             grad_kl_of = (\<lambda>pr p n. ([1, 2], 0)),
             grad_score = (\<lambda>a p k g. ([1, 1], (if p = [0, 0] then 0 else 10), 1)),
             check_conv = (\<lambda>p q. False),
             ppf = (\<lambda>c. Fin 2)\<rparr>"

definition ex_config :: "AccuSampleValDens config" where
  "ex_config = \<lparr>c_prior_param = [0, 0], c_post_param = [0, 0], c_temperature = 1,
                c_prev_eval = None, c_index_train = Some [0], c_eta = 1,
                c_chain_length = 3, c_per_step = [1, 1, 1], c_k = None, c_gen_decay = 0,
                c_momentum = 0, c_refuse_conf = 99 / 100, c_corr_eta = 1 / 2,
                c_n_grad_kl = 10\<rparr>"

definition ex_state1 :: solver where
  "ex_state1 =
     \<lparr>temperature = 1, per_step = [1, 1, 1], chain_length = 3, n_grad_kl = 10,
      prior_param = [0, 0], index_no_train = [1], index_train = [0], eta = 1,
      momentum = 0, refuse_factor = Fin 2, corr_eta = 1 / 2, k = None, gen_decay = 0,
      ini_post_param = [0, 0], post_param = [- 2, 0], post = Proba [- 2, 0], v = [- 2, 0],
      prev_score = Fin 0, count = 1, converged = False,
      accu = \<lparr>dens_gens = [([[0, 0]], [0], [0])], dens_n_tot = 3\<rparr>,
      stable_accu = \<lparr>val_gens = [([[0, 0]], [0])], val_n_tot = 3\<rparr>,
      hist_log = [\<lparr>proba_par = [0, 0], score = 0, KL = 0, mean_loss = 0\<rparr>],
      bin_log = [], all_log_vi = [], warned = [], printed = [Score_at 1 0]\<rparr>"

definition ex_state2 :: solver where
  "ex_state2 =
     \<lparr>temperature = 1, per_step = [1, 1, 1], chain_length = 3, n_grad_kl = 10,
      prior_param = [0, 0], index_no_train = [1], index_train = [0], eta = 1 / 2,
      momentum = 0, refuse_factor = Fin 2, corr_eta = 1 / 2, k = None, gen_decay = 0,
      ini_post_param = [0, 0], post_param = [0, 0], post = Proba [0, 0], v = [0, 0],
      prev_score = PInf, count = 2, converged = False,
      accu = \<lparr>dens_gens = [], dens_n_tot = 3\<rparr>,
      stable_accu = \<lparr>val_gens = [([[0, 0]], [0]), ([[1, 0]], [1])], val_n_tot = 3\<rparr>,
      hist_log = [],
      bin_log = [\<lparr>proba_par = [0, 0], score = 0, KL = 0, mean_loss = 0\<rparr>],
      all_log_vi = [], warned = [ProbBadGrad (Fin 0) (Fin 10) (Fin 1)],
      printed = [Score_at 1 0, No_score_assessed 2]\<rparr>"

definition ex_state3 :: solver where
  "ex_state3 =
     \<lparr>temperature = 1, per_step = [1, 1, 1], chain_length = 3, n_grad_kl = 10,
      prior_param = [0, 0], index_no_train = [1], index_train = [0], eta = 1 / 2,
      momentum = 0, refuse_factor = Fin 2, corr_eta = 1 / 2, k = None, gen_decay = 0,
      ini_post_param = [0, 0], post_param = [- 1, 0], post = Proba [- 1, 0], v = [- 1, 0],
      prev_score = Fin 0, count = 3, converged = False,
      accu = \<lparr>dens_gens = [([[2, 0]], [0], [2])], dens_n_tot = 3\<rparr>,
      stable_accu =
        \<lparr>val_gens = [([[0, 0]], [0]), ([[1, 0]], [1]), ([[2, 0]], [2])], val_n_tot = 3\<rparr>,
      hist_log = [\<lparr>proba_par = [0, 0], score = 0, KL = 0, mean_loss = 0\<rparr>],
      bin_log = [\<lparr>proba_par = [0, 0], score = 0, KL = 0, mean_loss = 0\<rparr>],
      all_log_vi = [], warned = [ProbBadGrad (Fin 0) (Fin 10) (Fin 1)],
      printed = [Score_at 1 0, No_score_assessed 2, Score_at 3 0]\<rparr>"

text \<open>
  The same schedule for the vanilla engine, and for a robust engine without frozen
  coordinates whose collaborator returns the estimate of the vanilla engine at the first
  step.
\<close>

definition ex_gd_config :: "AccuSampleVal config" where
  "ex_gd_config = \<lparr>c_prior_param = [0, 0], c_post_param = [0, 0], c_temperature = 1,
                   c_prev_eval = None, c_index_train = Some [0], c_eta = 1,
                   c_chain_length = 3, c_per_step = [1, 1, 1], c_k = None, c_gen_decay = 0,
                   c_momentum = 0, c_refuse_conf = 99 / 100, c_corr_eta = 1 / 2,
                   c_n_grad_kl = 10\<rparr>"

definition ex_gd_state1 :: gd_solver where
  "ex_gd_state1 =
     \<lparr>gd_temperature = 1, gd_per_step = [1, 1, 1], gd_chain_length = 3, gd_n_grad_kl = 10,
      gd_prior_param = [0, 0], gd_index_no_train = [1], gd_index_train = [0], gd_eta = 1,
      gd_post_param = [- 1, - 2], gd_post = Proba [- 1, - 2], gd_count = 1,
      gd_converged = False,
      gd_accu = \<lparr>val_gens = [([[0, 0]], [0])], val_n_tot = 3\<rparr>,
      gd_hist_log = [\<lparr>proba_par = [0, 0], score = 0, KL = 0, mean_loss = 0\<rparr>],
      gd_printed = [Score_at 1 0]\<rparr>"

definition ex_env0 :: env where
  "ex_env0 = ex_env\<lparr>grad_score := (\<lambda>a p k g. ([0, 0], 0, 1))\<rparr>"

definition ex_config0 :: "AccuSampleValDens config" where
  "ex_config0 = ex_config\<lparr>c_index_train := None\<rparr>"

definition ex_state0_1 :: solver where
  "ex_state0_1 =
     \<lparr>temperature = 1, per_step = [1, 1, 1], chain_length = 3, n_grad_kl = 10,
      prior_param = [0, 0], index_no_train = [], index_train = [0, 1], eta = 1,
      momentum = 0, refuse_factor = Fin 2, corr_eta = 1 / 2, k = None, gen_decay = 0,
      ini_post_param = [0, 0], post_param = [- 1, - 2], post = Proba [- 1, - 2],
      v = [- 1, - 2], prev_score = Fin 0, count = 1, converged = False,
      accu = \<lparr>dens_gens = [([[0, 0]], [0], [0])], dens_n_tot = 3\<rparr>,
      stable_accu = \<lparr>val_gens = [([[0, 0]], [0])], val_n_tot = 3\<rparr>,
      hist_log = [\<lparr>proba_par = [0, 0], score = 0, KL = 0, mean_loss = 0\<rparr>],
      bin_log = [], all_log_vi = [], warned = [], printed = [Score_at 1 0]\<rparr>"


text \<open>
  The same run with another sample drawn at the second step: the step is rejected all
  the same, and only the stable accumulator remembers the sample.
\<close>

definition ex_env_alt :: env where
  "ex_env_alt = ex_env\<lparr>draw := (\<lambda>t p i. if t = 1 then [7, 7] else [real t, real i])\<rparr>"

definition ex_state3_alt :: solver where
  "ex_state3_alt =
     ex_state3\<lparr>stable_accu :=
       \<lparr>val_gens = [([[0, 0]], [0]), ([[7, 7]], [14]), ([[2, 0]], [2])], val_n_tot = 3\<rparr>\<rparr>"

text \<open>
  A run of the robust engine whose score estimate has uncertainty 3: the score is 1 at
  the initial parameter, 6 at \<open>[-2, 0]\<close> and 20 elsewhere, so with \<open>refuse_factor = 2\<close> the
  second step is accepted (\<open>6 - 1\<close> is not above \<open>2 * 3\<close>) and the third is rejected
  (\<open>20 - 6\<close> is above \<open>2 * 3\<close>).
\<close>

definition ex_env_uq :: env where
  "ex_env_uq =
     ex_env\<lparr>grad_score :=
       (\<lambda>a p k g. ([1, 1], (if p = [0, 0] then 1 else if p = [- 2, 0] then 6 else 20), 3))\<rparr>"

definition exuq_state1 :: solver where
  "exuq_state1 =
     \<lparr>temperature = 1, per_step = [1, 1, 1], chain_length = 3, n_grad_kl = 10,
      prior_param = [0, 0], index_no_train = [1], index_train = [0], eta = 1,
      momentum = 0, refuse_factor = Fin 2, corr_eta = 1 / 2, k = None, gen_decay = 0,
      ini_post_param = [0, 0], post_param = [- 2, 0], post = Proba [- 2, 0], v = [- 2, 0],
      prev_score = Fin 1, count = 1, converged = False,
      accu = \<lparr>dens_gens = [([[0, 0]], [0], [0])], dens_n_tot = 3\<rparr>,
      stable_accu = \<lparr>val_gens = [([[0, 0]], [0])], val_n_tot = 3\<rparr>,
      hist_log = [\<lparr>proba_par = [0, 0], score = 1, KL = 0, mean_loss = 1\<rparr>],
      bin_log = [], all_log_vi = [], warned = [], printed = [Score_at 1 1]\<rparr>"

definition exuq_state2 :: solver where
  "exuq_state2 =
     \<lparr>temperature = 1, per_step = [1, 1, 1], chain_length = 3, n_grad_kl = 10,
      prior_param = [0, 0], index_no_train = [1], index_train = [0], eta = 1,
      momentum = 0, refuse_factor = Fin 2, corr_eta = 1 / 2, k = None, gen_decay = 0,
      ini_post_param = [0, 0], post_param = [- 4, 0], post = Proba [- 4, 0], v = [- 2, 0],
      prev_score = Fin 6, count = 2, converged = False,
      accu = \<lparr>dens_gens = [([[0, 0]], [0], [0]), ([[1, 0]], [0], [1])], dens_n_tot = 3\<rparr>,
      stable_accu = \<lparr>val_gens = [([[0, 0]], [0]), ([[1, 0]], [1])], val_n_tot = 3\<rparr>,
      hist_log = [\<lparr>proba_par = [0, 0], score = 1, KL = 0, mean_loss = 1\<rparr>,
                  \<lparr>proba_par = [- 2, 0], score = 6, KL = 0, mean_loss = 6\<rparr>],
      bin_log = [], all_log_vi = [], warned = [],
      printed = [Score_at 1 1, Score_at 2 6]\<rparr>"

definition exuq_state3 :: solver where
  "exuq_state3 =
     \<lparr>temperature = 1, per_step = [1, 1, 1], chain_length = 3, n_grad_kl = 10,
      prior_param = [0, 0], index_no_train = [1], index_train = [0], eta = 1 / 2,
      momentum = 0, refuse_factor = Fin 2, corr_eta = 1 / 2, k = None, gen_decay = 0,
      ini_post_param = [0, 0], post_param = [0, 0], post = Proba [0, 0], v = [0, 0],
      prev_score = Fin 1, count = 3, converged = False,
      accu = \<lparr>dens_gens = [([[0, 0]], [0], [0])], dens_n_tot = 3\<rparr>,
      stable_accu =
        \<lparr>val_gens = [([[0, 0]], [0]), ([[1, 0]], [1]), ([[2, 0]], [2])], val_n_tot = 3\<rparr>,
      hist_log = [\<lparr>proba_par = [0, 0], score = 1, KL = 0, mean_loss = 1\<rparr>],
      bin_log = [\<lparr>proba_par = [- 2, 0], score = 6, KL = 0, mean_loss = 6\<rparr>],
      all_log_vi = [], warned = [ProbBadGrad (Fin 6) (Fin 20) (Fin 3)],
      printed = [Score_at 1 1, Score_at 2 6, Score_at 3 1]\<rparr>"

text \<open>
  The warnings emitted in the first \<open>n\<close> steps of a run from the constructor, and the first
  configuration with a schedule of four steps.
\<close>

definition warnings_after :: "env \<Rightarrow> AccuSampleValDens config \<Rightarrow> nat \<Rightarrow> warning list option" where
  "warnings_after E c n =
     (case updates E n (GB_init E c) of Inl e \<Rightarrow> None | Inr s \<Rightarrow> Some (warned s))"

definition ex_config4 :: "AccuSampleValDens config" where
  "ex_config4 = ex_config\<lparr>c_per_step := [1, 1, 1, 1], c_chain_length := 4\<rparr>"

text \<open>
  A vanilla engine whose first batch has two samples with different loss values, and a
  derivative of the log-density that depends on the sample.
\<close>

definition ex_env_gd :: env where
  "ex_env_gd = ex_env\<lparr>log_dens_der := (\<lambda>p x. [sum_list x, 1])\<rparr>"

definition ex_gd_config2 :: "AccuSampleVal config" where
  "ex_gd_config2 = ex_gd_config\<lparr>c_per_step := [2, 1], c_chain_length := 2\<rparr>"

definition ex_gd2_state1 :: gd_solver where
  "ex_gd2_state1 =
     \<lparr>gd_temperature = 1, gd_per_step = [2, 1], gd_chain_length = 2, gd_n_grad_kl = 10,
      gd_prior_param = [0, 0], gd_index_no_train = [1], gd_index_train = [0], gd_eta = 1,
      gd_post_param = [- (5 / 4), - 2], gd_post = Proba [- (5 / 4), - 2], gd_count = 1,
      gd_converged = False,
      gd_accu = \<lparr>val_gens = [([[0, 0], [0, 1]], [0, 1])], val_n_tot = 3\<rparr>,
      gd_hist_log = [\<lparr>proba_par = [0, 0], score = 1 / 2, KL = 0, mean_loss = 1 / 2\<rparr>],
      gd_printed = [Score_at 1 (1 / 2)]\<rparr>"
section \<open>Auxiliary facts\<close>

lemma not_bad_PInf: "prev_score s = PInf \<Longrightarrow> \<not> is_bad_step s x y"
  by (cases x; cases "xtimes (refuse_factor s) y"; simp add: is_bad_step_def)

lemma msg_end_step_Inr:
  "msg_end_step s = Inr (s\<lparr>printed := printed s @ [end_msg (count s) (hist_log s)]\<rparr>)"
  unfolding msg_end_step_def super_msg_end_step_def py_first_def end_msg_def
  by (cases "VI_scores_last 1 (hist_log s)") simp_all

lemma length_batch: "length (batch E s) = per_step s ! count s"
  by (simp add: batch_def sample_of_def)

lemma gen_sample_Inr:
  assumes "gen_sample E s = Inr s1"
  shows "count s < length (per_step s)" and "s1 = with_batch E s"
  using assms
  by (auto simp: gen_sample_def py_index_def dens_add_def val_add_def Let_def with_batch_def
      batch_def split: if_splits sum.splits)

lemma gen_sample_ok:
  assumes "count s < length (per_step s)"
    and "dens_n_filled (accu s) + per_step s ! count s \<le> dens_n_tot (accu s)"
    and "val_n_filled (stable_accu s) + per_step s ! count s \<le> val_n_tot (stable_accu s)"
  shows "gen_sample E s = Inr (with_batch E s)"
  using assms
  by (simp add: gen_sample_def py_index_def dens_add_def val_add_def Let_def with_batch_def
      batch_def sample_of_def)

lemma gen_sample_full:
  assumes "count s < length (per_step s)"
    and "dens_n_tot (accu s) < dens_n_filled (accu s) + per_step s ! count s"
  shows "gen_sample E s = Inl FullMemory"
  using assms
  by (simp add: gen_sample_def py_index_def dens_add_def Let_def sample_of_def)

lemma update_gen_sample_Inl: "gen_sample E s = Inl e \<Longrightarrow> update E s = Inl e"
  by (simp add: update_def)


lemma update_bad:
  assumes "gen_sample E s = Inr s1"
    and "get_score_grad E s1 = (der_score, m_score, score_UQ)"
    and "grad_kl_of E (prior_param s1) (post_param s1) (n_grad_kl s1) = (der_KL, kl)"
    and "is_bad_step s1 (Fin (m_score + temperature s1 * kl)) (Fin score_UQ)"
  shows "update E s =
      (case rollback E (s1\<lparr>warned := warned s1 @
               [ProbBadGrad (prev_score s1) (Fin (m_score + temperature s1 * kl)) (Fin score_UQ)]\<rparr>) of
         Inl e \<Rightarrow> Inl e
       | Inr s3 \<Rightarrow> msg_end_step (s3\<lparr>count := count s3 + 1\<rparr>))"
  using assms by (simp add: update_def check_bad_grad_def Let_def)

lemma update_good:
  assumes "gen_sample E s = Inr s1"
    and "get_score_grad E s1 = (der_score, m_score, score_UQ)"
    and "grad_kl_of E (prior_param s1) (post_param s1) (n_grad_kl s1) = (der_KL, kl)"
    and "\<not> is_bad_step s1 (Fin (m_score + temperature s1 * kl)) (Fin score_UQ)"
  shows "update E s =
      msg_end_step ((accept E der_score m_score der_KL kl (m_score + temperature s1 * kl) s1)
                      \<lparr>count := count s1 + 1\<rparr>)"
  using assms by (simp add: update_def check_bad_grad_def Let_def accept_def check_convergence_def)

lemma rollback_empty: "hist_log s = [] \<Longrightarrow> rollback E s = Inl IndexError"
  by (simp add: rollback_def Let_def mod_accu_bad_step_def suppr_def)

lemma rollback_nonempty:
  assumes "hist_log s \<noteq> []"
  shows "rollback E s =
     Inr (restore_last
            (s\<lparr>v := zeros (proba_param_shape E),
               eta := eta s * corr_eta s,
               accu := suppr_gen 2 (accu s),
               hist_log := butlast (hist_log s),
               bin_log := bin_log s @ [last (hist_log s)]\<rparr>))"
proof -
  have len: "Suc 0 \<le> length (hist_log s)"
    using assms by (cases "hist_log s") simp_all
  have d: "drop (length (hist_log s) - Suc 0) (hist_log s) = [last (hist_log s)]"
    using assms by (cases "hist_log s" rule: rev_cases) simp_all
  have t: "take (length (hist_log s) - Suc 0) (hist_log s) = butlast (hist_log s)"
    by (simp add: butlast_conv_take)
  show ?thesis
    using len assms
    by (simp add: rollback_def Let_def mod_accu_bad_step_def suppr_def d t add_recs_def)
qed

lemma py_last_Nil: "py_last [] = Inl IndexError"
  by (simp add: py_last_def)

lemma py_last_nonempty: "xs \<noteq> [] \<Longrightarrow> py_last xs = Inr (last xs)"
  by (cases xs) (simp_all add: py_last_def)

lemma restore_last_Nil: "hist_log s = [] \<Longrightarrow> restore_last s = restore_initial s"
  by (simp add: restore_last_def proba_pars_def py_last_Nil)

lemma restore_last_Cons:
  "hist_log s \<noteq> [] \<Longrightarrow>
   restore_last s = s\<lparr>post_param := proba_par (last (hist_log s)),
                        post := proba_map (proba_par (last (hist_log s))),
                        prev_score := Fin (score (last (hist_log s)))\<rparr>"
  by (simp add: restore_last_def proba_pars_def VI_scores_def py_last_nonempty last_map)

lemma restore_last_fields:
  "hist_log (restore_last s) = hist_log s"
  "bin_log (restore_last s) = bin_log s"
  "v (restore_last s) = v s"
  "eta (restore_last s) = eta s"
  "accu (restore_last s) = accu s"
  "stable_accu (restore_last s) = stable_accu s"
  "warned (restore_last s) = warned s"
  "count (restore_last s) = count s"
  "corr_eta (restore_last s) = corr_eta s"
  "refuse_factor (restore_last s) = refuse_factor s"
  "per_step (restore_last s) = per_step s"
  "ini_post_param (restore_last s) = ini_post_param s"
  "index_no_train (restore_last s) = index_no_train s"
  "momentum (restore_last s) = momentum s"
  "temperature (restore_last s) = temperature s"
  "printed (restore_last s) = printed s"
  "converged (restore_last s) = converged s"
  by (cases "hist_log s = []"; simp add: restore_last_Nil restore_last_Cons restore_initial_def)+

lemma restore_last_empty:
  assumes "hist_log s = []"
  shows "post_param (restore_last s) = ini_post_param s"
    and "post (restore_last s) = proba_map (ini_post_param s)"
    and "prev_score (restore_last s) = PInf"
  using assms by (simp_all add: restore_last_Nil restore_initial_def)

lemma restore_last_nonempty:
  assumes "hist_log s \<noteq> []"
  shows "post_param (restore_last s) = proba_par (last (hist_log s))"
    and "post (restore_last s) = proba_map (proba_par (last (hist_log s)))"
    and "prev_score (restore_last s) = Fin (score (last (hist_log s)))"
  using assms by (simp_all add: restore_last_Cons)


lemma with_batch_fields:
  "hist_log (with_batch E s) = hist_log s"
  "bin_log (with_batch E s) = bin_log s"
  "v (with_batch E s) = v s"
  "eta (with_batch E s) = eta s"
  "warned (with_batch E s) = warned s"
  "count (with_batch E s) = count s"
  "corr_eta (with_batch E s) = corr_eta s"
  "refuse_factor (with_batch E s) = refuse_factor s"
  "per_step (with_batch E s) = per_step s"
  "ini_post_param (with_batch E s) = ini_post_param s"
  "index_no_train (with_batch E s) = index_no_train s"
  "momentum (with_batch E s) = momentum s"
  "temperature (with_batch E s) = temperature s"
  "prev_score (with_batch E s) = prev_score s"
  "post_param (with_batch E s) = post_param s"
  "post (with_batch E s) = post s"
  "prior_param (with_batch E s) = prior_param s"
  "n_grad_kl (with_batch E s) = n_grad_kl s"
  "printed (with_batch E s) = printed s"
  "converged (with_batch E s) = converged s"
  by (simp_all add: with_batch_def)

lemma with_batch_accus:
  "dens_gens (accu (with_batch E s)) = dens_gens (accu s) @
     [(batch E s, map (log_dens E (param_of (post s))) (batch E s), map (loss E) (batch E s))]"
  "dens_n_tot (accu (with_batch E s)) = dens_n_tot (accu s)"
  "val_gens (stable_accu (with_batch E s)) = val_gens (stable_accu s) @
     [(batch E s, map (loss E) (batch E s))]"
  "val_n_tot (stable_accu (with_batch E s)) = val_n_tot (stable_accu s)"
  by (simp_all add: with_batch_def)

lemma is_bad_with_batch: "is_bad_step (with_batch E s) x y = is_bad_step s x y"
  by (simp add: is_bad_step_def with_batch_fields)

lemma accept_fields:
  "hist_log (accept E g m gk kl sc s) =
     hist_log s @ [\<lparr>proba_par = post_param s, score = sc, KL = kl, mean_loss = m\<rparr>]"
  "bin_log (accept E g m gk kl sc s) = bin_log s"
  "v (accept E g m gk kl sc s) =
     vadd (set_zero (index_no_train s) (smult (- eta s) (vadd g (smult (temperature s) gk))))
          (smult (momentum s) (v s))"
  "post_param (accept E g m gk kl sc s) = vadd (post_param s) (v (accept E g m gk kl sc s))"
  "post (accept E g m gk kl sc s) = proba_map (post_param (accept E g m gk kl sc s))"
  "prev_score (accept E g m gk kl sc s) = Fin sc"
  "eta (accept E g m gk kl sc s) = eta s"
  "accu (accept E g m gk kl sc s) = accu s"
  "stable_accu (accept E g m gk kl sc s) = stable_accu s"
  "warned (accept E g m gk kl sc s) = warned s"
  "count (accept E g m gk kl sc s) = count s"
  "corr_eta (accept E g m gk kl sc s) = corr_eta s"
  "refuse_factor (accept E g m gk kl sc s) = refuse_factor s"
  "per_step (accept E g m gk kl sc s) = per_step s"
  "ini_post_param (accept E g m gk kl sc s) = ini_post_param s"
  "index_no_train (accept E g m gk kl sc s) = index_no_train s"
  "momentum (accept E g m gk kl sc s) = momentum s"
  "temperature (accept E g m gk kl sc s) = temperature s"
  "printed (accept E g m gk kl sc s) = printed s"
  by (simp_all add: accept_def Let_def check_convergence_def add1_def)

lemma update_InrE:
  assumes "update E s = Inr s'"
  obtains
    (bad) g m u gk kl where
      "count s < length (per_step s)"
      "get_score_grad E (with_batch E s) = (g, m, u)"
      "grad_kl_of E (prior_param s) (post_param s) (n_grad_kl s) = (gk, kl)"
      "is_bad_step s (Fin (m + temperature s * kl)) (Fin u)"
      "hist_log s \<noteq> []"
      "s' = (restore_last
              ((with_batch E s)
                \<lparr>warned := warned s @
                    [ProbBadGrad (prev_score s) (Fin (m + temperature s * kl)) (Fin u)],
                 v := zeros (proba_param_shape E),
                 eta := eta s * corr_eta s,
                 accu := suppr_gen 2 (accu (with_batch E s)),
                 hist_log := butlast (hist_log s),
                 bin_log := bin_log s @ [last (hist_log s)]\<rparr>))
             \<lparr>count := count s + 1,
              printed := printed s @
                [end_msg (count s + 1) (butlast (hist_log s))]\<rparr>"
  | (good) g m u gk kl where
      "count s < length (per_step s)"
      "get_score_grad E (with_batch E s) = (g, m, u)"
      "grad_kl_of E (prior_param s) (post_param s) (n_grad_kl s) = (gk, kl)"
      "\<not> is_bad_step s (Fin (m + temperature s * kl)) (Fin u)"
      "s' = (accept E g m gk kl (m + temperature s * kl) (with_batch E s))
             \<lparr>count := count s + 1,
              printed := printed s @ [Score_at (count s + 1) (m + temperature s * kl)]\<rparr>"
proof -
  obtain s1 where gs: "gen_sample E s = Inr s1"
    using assms by (cases "gen_sample E s") (simp_all add: update_def)
  have s1: "s1 = with_batch E s" and cnt: "count s < length (per_step s)"
    using gen_sample_Inr[OF gs] by simp_all
  obtain g m u where sg: "get_score_grad E s1 = (g, m, u)"
    by (cases "get_score_grad E s1") auto
  obtain gk kl where k: "grad_kl_of E (prior_param s1) (post_param s1) (n_grad_kl s1) = (gk, kl)"
    by (cases "grad_kl_of E (prior_param s1) (post_param s1) (n_grad_kl s1)") auto
  show thesis
  proof (cases "is_bad_step s1 (Fin (m + temperature s1 * kl)) (Fin u)")
    case True
    let ?w = "s1\<lparr>warned := warned s1 @
               [ProbBadGrad (prev_score s1) (Fin (m + temperature s1 * kl)) (Fin u)]\<rparr>"
    have ne: "hist_log s \<noteq> []"
    proof
      assume "hist_log s = []"
      then have "rollback E ?w = Inl IndexError"
        by (simp add: rollback_empty s1 with_batch_fields)
      then show False using assms update_bad[OF gs sg k True] by simp
    qed
    have rb: "rollback E ?w = Inr (restore_last
            (?w\<lparr>v := zeros (proba_param_shape E),
               eta := eta ?w * corr_eta ?w,
               accu := suppr_gen 2 (accu ?w),
               hist_log := butlast (hist_log ?w),
               bin_log := bin_log ?w @ [last (hist_log ?w)]\<rparr>))"
      by (rule rollback_nonempty) (simp add: s1 with_batch_fields ne)
    have "update E s = msg_end_step ((restore_last
            (?w\<lparr>v := zeros (proba_param_shape E),
               eta := eta ?w * corr_eta ?w,
               accu := suppr_gen 2 (accu ?w),
               hist_log := butlast (hist_log ?w),
               bin_log := bin_log ?w @ [last (hist_log ?w)]\<rparr>))\<lparr>count := count s + 1\<rparr>)"
      using update_bad[OF gs sg k True] rb
      by (simp add: restore_last_fields s1 with_batch_fields)
    then have "s' = (restore_last
              ((with_batch E s)
                \<lparr>warned := warned s @
                    [ProbBadGrad (prev_score s) (Fin (m + temperature s * kl)) (Fin u)],
                 v := zeros (proba_param_shape E),
                 eta := eta s * corr_eta s,
                 accu := suppr_gen 2 (accu (with_batch E s)),
                 hist_log := butlast (hist_log s),
                 bin_log := bin_log s @ [last (hist_log s)]\<rparr>))
             \<lparr>count := count s + 1,
              printed := printed s @
                [end_msg (count s + 1) (butlast (hist_log s))]\<rparr>"
      using assms
      by (simp add: msg_end_step_Inr restore_last_fields s1 with_batch_fields)
    with True cnt sg k ne show thesis
      by (intro bad[of g m u gk kl]) (simp_all add: s1 with_batch_fields is_bad_with_batch)
  next
    case False
    have "end_msg n (hist_log s @
        [\<lparr>proba_par = post_param s, score = m + temperature s * kl, KL = kl, mean_loss = m\<rparr>]) =
        Score_at n (m + temperature s * kl)" for n
      by (simp add: VI_scores_last_def end_msg_def)
    then have "s' = (accept E g m gk kl (m + temperature s * kl) (with_batch E s))
             \<lparr>count := count s + 1,
              printed := printed s @ [Score_at (count s + 1) (m + temperature s * kl)]\<rparr>"
      using assms update_good[OF gs sg k False]
      by (simp add: msg_end_step_Inr accept_fields s1 with_batch_fields)
    with False cnt sg k show thesis
      by (intro good[of g m u gk kl]) (simp_all add: s1 with_batch_fields is_bad_with_batch)
  qed
qed

lemma GB_init_fields:
  "per_step (GB_init E c) = c_per_step c"
  "count (GB_init E c) = 0"
  "hist_log (GB_init E c) = []"
  "bin_log (GB_init E c) = []"
  "warned (GB_init E c) = []"
  "prev_score (GB_init E c) = PInf"
  "eta (GB_init E c) = c_eta c * (1 - c_momentum c)"
  "momentum (GB_init E c) = c_momentum c"
  "corr_eta (GB_init E c) = c_corr_eta c"
  "refuse_factor (GB_init E c) = ppf E (c_refuse_conf c)"
  "post_param (GB_init E c) = c_post_param c"
  "ini_post_param (GB_init E c) = c_post_param c"
  "v (GB_init E c) = zeros (proba_param_shape E)"
  "index_no_train (GB_init E c) = no_train_of (length (c_prior_param c)) (c_index_train c)"
  "temperature (GB_init E c) = c_temperature c"
  "accu (GB_init E c) = fst (set_up_accu (c_per_step c) (c_prev_eval c))"
  "stable_accu (GB_init E c) = snd (set_up_accu (c_per_step c) (c_prev_eval c))"
  by (simp_all add: GB_init_def Let_def split_beta)

lemma set_up_accu_None:
  "fst (set_up_accu p None) = new_dens (sum_list p)"
  by (simp add: set_up_accu_def)

lemma set_up_accu_Some:
  "fst (set_up_accu p (Some a)) = extend_memory (sum_list p) a"
  by (simp add: set_up_accu_def)

lemma set_up_accu_stable:
  "snd (set_up_accu p pe) = new_val (sum_list p)"
  by (simp add: set_up_accu_def)

lemma run_inv_init:
  assumes "prev_eval_ok c"
  shows "run_inv (GB_init E c)"
proof (cases "c_prev_eval c")
  case None
  then show ?thesis
    by (simp add: run_inv_def GB_init_fields set_up_accu_None set_up_accu_stable new_dens_def
        new_val_def dens_n_filled_def val_n_filled_def)
next
  case (Some a)
  then have "dens_n_filled a \<le> dens_n_tot a"
    using assms by (simp add: prev_eval_ok_def)
  then show ?thesis
    using Some
    by (simp add: run_inv_def GB_init_fields set_up_accu_Some set_up_accu_stable
        extend_memory_def new_val_def dens_n_filled_def val_n_filled_def)
qed

lemma drop_count_split:
  "n < length xs \<Longrightarrow> sum_list (drop n xs) = xs ! n + sum_list (drop (Suc n) (xs::nat list))"
  by (simp add: Cons_nth_drop_Suc[symmetric])

lemma update_total:
  assumes inv: "run_inv s" and cnt: "count s < length (per_step s)"
  shows "\<exists>s'. update E s = Inr s'"
proof -
  have d: "sum_list (drop (count s) (per_step s)) =
      per_step s ! count s + sum_list (drop (Suc (count s)) (per_step s))"
    using cnt by (rule drop_count_split)
  have gs: "gen_sample E s = Inr (with_batch E s)"
    using inv cnt d by (intro gen_sample_ok) (simp_all add: run_inv_def)
  obtain g m u where sg: "get_score_grad E (with_batch E s) = (g, m, u)"
    by (cases "get_score_grad E (with_batch E s)") auto
  obtain gk kl where k: "grad_kl_of E (prior_param (with_batch E s))
      (post_param (with_batch E s)) (n_grad_kl (with_batch E s)) = (gk, kl)"
    by (cases "grad_kl_of E (prior_param (with_batch E s))
      (post_param (with_batch E s)) (n_grad_kl (with_batch E s))") auto
  show ?thesis
  proof (cases "is_bad_step (with_batch E s)
      (Fin (m + temperature (with_batch E s) * kl)) (Fin u)")
    case True
    then have "prev_score s \<noteq> PInf"
      using not_bad_PInf[of s] by (auto simp: is_bad_with_batch)
    then have ne: "hist_log s \<noteq> []"
      using inv by (auto simp: run_inv_def)
    show ?thesis
      unfolding update_bad[OF gs sg k True]
      by (subst rollback_nonempty) (simp_all add: with_batch_fields ne msg_end_step_Inr)
  next
    case False
    show ?thesis
      unfolding update_good[OF gs sg k False] by (simp add: msg_end_step_Inr)
  qed
qed

lemma sum_list_take_le:
  "sum_list (map f (take n xs)) \<le> sum_list (map f (xs::'a list)) " for f :: "'a \<Rightarrow> nat"
proof -
  have "sum_list (map f xs) = sum_list (map f (take n xs)) + sum_list (map f (drop n xs))"
    by (metis append_take_drop_id map_append sum_list_append)
  then show ?thesis by simp
qed

lemma dens_n_filled_suppr_gen: "dens_n_filled (suppr_gen g a) \<le> dens_n_filled a"
  by (simp add: dens_n_filled_def suppr_gen_def sum_list_take_le)

lemma dens_n_filled_with_batch:
  "dens_n_filled (accu (with_batch E s)) = dens_n_filled (accu s) + per_step s ! count s"
  by (simp add: dens_n_filled_def with_batch_accus length_batch)

lemma val_n_filled_with_batch:
  "val_n_filled (stable_accu (with_batch E s)) =
     val_n_filled (stable_accu s) + per_step s ! count s"
  by (simp add: val_n_filled_def with_batch_accus length_batch)

lemma run_inv_update:
  assumes inv: "run_inv s" and u: "update E s = Inr s'"
  shows "run_inv s' \<and> count s' = Suc (count s) \<and> per_step s' = per_step s"
  using u
proof (cases rule: update_InrE)
  case (bad g m u gk kl)
  have d: "sum_list (drop (count s) (per_step s)) =
      per_step s ! count s + sum_list (drop (Suc (count s)) (per_step s))"
    using bad(1) by (rule drop_count_split)
  have a: "dens_n_filled (suppr_gen 2 (accu (with_batch E s)))
      \<le> dens_n_filled (accu s) + per_step s ! count s"
    using dens_n_filled_suppr_gen[of 2 "accu (with_batch E s)"]
    by (simp add: dens_n_filled_with_batch)
  have t: "dens_n_tot (suppr_gen 2 (accu (with_batch E s))) = dens_n_tot (accu s)"
    by (simp add: suppr_gen_def with_batch_accus)
  have ps: "butlast (hist_log s) = [] \<Longrightarrow> prev_score s' = PInf"
    by (simp add: bad(6) restore_last_empty)
  show ?thesis
    using inv bad(1) d a t ps val_n_filled_with_batch[of E s]
    by (simp add: run_inv_def bad(6) restore_last_fields with_batch_fields with_batch_accus)
next
  case (good g m u gk kl)
  have d: "sum_list (drop (count s) (per_step s)) =
      per_step s ! count s + sum_list (drop (Suc (count s)) (per_step s))"
    using good(1) by (rule drop_count_split)
  show ?thesis
    using inv good(1) d dens_n_filled_with_batch[of E s] val_n_filled_with_batch[of E s]
    by (simp add: run_inv_def good(5) accept_fields with_batch_fields with_batch_accus)
qed

lemma updates_total:
  assumes "run_inv s" and "count s + n \<le> length (per_step s)"
  shows "\<exists>s'. updates E n s = Inr s' \<and> run_inv s' \<and> count s' = count s + n \<and>
               per_step s' = per_step s"
  using assms
proof (induction n arbitrary: s)
  case 0
  then show ?case by simp
next
  case (Suc n)
  then have c: "count s < length (per_step s)" by simp
  obtain s1 where u: "update E s = Inr s1"
    using update_total[OF Suc.prems(1) c] by blast
  have i1: "run_inv s1" and c1: "count s1 = Suc (count s)" and p1: "per_step s1 = per_step s"
    using run_inv_update[OF Suc.prems(1) u] by simp_all
  have "count s1 + n \<le> length (per_step s1)"
    using Suc.prems(2) c1 p1 by simp
  from Suc.IH[OF i1 this] obtain s' where
    "updates E n s1 = Inr s'" "run_inv s'" "count s' = count s1 + n" "per_step s' = per_step s1"
    by blast
  then show ?case using u c1 p1 by simp
qed

lemma updates_reach_inv:
  assumes "run_inv s" and "updates E n s = Inr s'"
  shows "run_inv s' \<and> count s' = count s + n \<and> per_step s' = per_step s"
  using assms
proof (induction n arbitrary: s)
  case 0
  then show ?case by simp
next
  case (Suc n)
  then obtain s1 where u: "update E s = Inr s1" and r: "updates E n s1 = Inr s'"
    by (cases "update E s") simp_all
  have i1: "run_inv s1" and c1: "count s1 = Suc (count s)" and p1: "per_step s1 = per_step s"
    using run_inv_update[OF Suc.prems(1) u] by simp_all
  show ?case using Suc.IH[OF i1 r] c1 p1 by simp
qed

lemma ex_step1: "update ex_env (GB_init ex_env ex_config) = Inr ex_state1"
  by code_simp

lemma ex_step2: "update ex_env ex_state1 = Inr ex_state2"
  by code_simp

lemma ex_step3: "update ex_env ex_state2 = Inr ex_state3"
  by code_simp

lemma ex_run2: "updates ex_env 2 (GB_init ex_env ex_config) = Inr ex_state2"
  by code_simp

lemma ex_run3: "updates ex_env 3 (GB_init ex_env ex_config) = Inr ex_state3"
  by code_simp

lemma ex_prev_eval_ok: "prev_eval_ok ex_config"
  by (simp add: prev_eval_ok_def ex_config_def)

lemma update_frame:
  assumes "update E s = Inr s'"
  shows "corr_eta s' = corr_eta s" "ini_post_param s' = ini_post_param s"
    "refuse_factor s' = refuse_factor s" "momentum s' = momentum s"
    "temperature s' = temperature s" "index_no_train s' = index_no_train s"
    "per_step s' = per_step s" "count s' = Suc (count s)"
  using assms
  by (cases rule: update_InrE;
      simp add: restore_last_fields accept_fields with_batch_fields)+

lemma update_eta:
  assumes "update E s = Inr s'"
  shows "eta s' = eta s \<or> eta s' = eta s * corr_eta s"
  using assms
  by (cases rule: update_InrE)
     (simp_all add: restore_last_fields accept_fields with_batch_fields)

lemma update_log_empty:
  assumes "update E s = Inr s'" and "hist_log s' = []"
  shows "prev_score s' = PInf"
  using assms
  by (cases rule: update_InrE)
     (simp_all add: restore_last_fields restore_last_empty accept_fields)

lemma updates_snoc:
  "updates E (Suc n) s =
     (case updates E n s of Inl e \<Rightarrow> Inl e | Inr s1 \<Rightarrow> update E s1)"
proof (induction n arbitrary: s)
  case 0
  show ?case by (cases "update E s") simp_all
next
  case (Suc n)
  show ?case
  proof (cases "update E s")
    case (Inl e)
    then show ?thesis by simp
  next
    case (Inr s1)
    then show ?thesis using Suc.IH[of s1] by simp
  qed
qed

lemma updates_frame:
  assumes "updates E n s = Inr s'"
  shows "corr_eta s' = corr_eta s \<and> ini_post_param s' = ini_post_param s \<and>
    refuse_factor s' = refuse_factor s \<and> momentum s' = momentum s \<and>
    temperature s' = temperature s \<and> index_no_train s' = index_no_train s \<and>
    per_step s' = per_step s \<and> count s' = count s + n"
  using assms
proof (induction n arbitrary: s)
  case 0
  then show ?case by simp
next
  case (Suc n)
  then obtain s1 where u: "update E s = Inr s1" and r: "updates E n s1 = Inr s'"
    by (cases "update E s") simp_all
  show ?case using Suc.IH[OF r] update_frame[OF u] by simp
qed

lemma updates_eta:
  assumes "updates E n s = Inr s'"
  shows "\<exists>j\<le>n. eta s' = eta s * corr_eta s ^ j"
  using assms
proof (induction n arbitrary: s)
  case 0
  then show ?case by simp
next
  case (Suc n)
  then obtain s1 where u: "update E s = Inr s1" and r: "updates E n s1 = Inr s'"
    by (cases "update E s") simp_all
  from Suc.IH[OF r] obtain j where j: "j \<le> n" "eta s' = eta s1 * corr_eta s1 ^ j"
    by blast
  have c: "corr_eta s1 = corr_eta s" using update_frame[OF u] by simp
  from update_eta[OF u] show ?case
  proof
    assume "eta s1 = eta s"
    then have "eta s' = eta s * corr_eta s ^ j" using j c by simp
    then show ?thesis using j(1) by (intro exI[of _ j]) simp
  next
    assume "eta s1 = eta s * corr_eta s"
    then have "eta s' = eta s * corr_eta s ^ Suc j" using j c by simp
    then show ?thesis using j(1) by (intro exI[of _ "Suc j"]) simp
  qed
qed

lemma reach_log_empty:
  assumes "updates E n (GB_init E c) = Inr s" and "hist_log s = []"
  shows "prev_score s = PInf"
proof (cases n)
  case 0
  then have "s = GB_init E c" using assms(1) by simp
  then show ?thesis by (simp add: GB_init_fields)
next
  case (Suc m)
  then obtain s1 where "update E s1 = Inr s"
    using assms(1) unfolding Suc updates_snoc by (cases "updates E m (GB_init E c)") simp_all
  then show ?thesis using assms(2) by (rule update_log_empty)
qed

lemma take_butlast_snoc: "take (length xs + 1 - 2) (xs @ [x]) = butlast xs"
  by (cases xs rule: rev_cases) simp_all

lemma suppr_gen_with_batch:
  "dens_gens (suppr_gen 2 (accu (with_batch E s))) = butlast (dens_gens (accu s))"
  using take_butlast_snoc[of "dens_gens (accu s)"]
  by (simp add: suppr_gen_def with_batch_accus)

text \<open>One call of update, with the scores of the step named.\<close>

lemma update_bad_fields:
  assumes sg: "get_score_grad E (with_batch E s) = (g, m, u)"
    and k: "grad_kl_of E (prior_param s) (post_param s) (n_grad_kl s) = (gk, kl)"
    and b: "is_bad_step s (Fin (m + temperature s * kl)) (Fin u)"
    and u: "update E s = Inr s'"
  shows "hist_log s \<noteq> []"
    and "v s' = zeros (proba_param_shape E)"
    and "eta s' = eta s * corr_eta s"
    and "dens_gens (accu s') = butlast (dens_gens (accu s))"
    and "dens_n_tot (accu s') = dens_n_tot (accu s)"
    and "hist_log s' = butlast (hist_log s)"
    and "bin_log s' = bin_log s @ [last (hist_log s)]"
    and "warned s' = warned s @
           [ProbBadGrad (prev_score s) (Fin (m + temperature s * kl)) (Fin u)]"
    and "stable_accu s' = stable_accu (with_batch E s)"
    and "hist_log s' = [] \<Longrightarrow> post_param s' = ini_post_param s"
    and "hist_log s' = [] \<Longrightarrow> post s' = proba_map (ini_post_param s)"
    and "hist_log s' = [] \<Longrightarrow> prev_score s' = PInf"
    and "hist_log s' \<noteq> [] \<Longrightarrow> post_param s' = proba_par (last (hist_log s'))"
    and "hist_log s' \<noteq> [] \<Longrightarrow> post s' = proba_map (proba_par (last (hist_log s')))"
    and "hist_log s' \<noteq> [] \<Longrightarrow> prev_score s' = Fin (score (last (hist_log s')))"
  using u
  by (cases rule: update_InrE;
      insert sg k b;
      simp add: restore_last_fields restore_last_empty restore_last_nonempty
        with_batch_fields suppr_gen_with_batch;
      simp add: suppr_gen_def with_batch_accus)+

lemma update_good_fields:
  assumes sg: "get_score_grad E (with_batch E s) = (g, m, u)"
    and k: "grad_kl_of E (prior_param s) (post_param s) (n_grad_kl s) = (gk, kl)"
    and b: "\<not> is_bad_step s (Fin (m + temperature s * kl)) (Fin u)"
    and u: "update E s = Inr s'"
  shows "hist_log s' = hist_log s @
           [\<lparr>proba_par = post_param s, score = m + temperature s * kl, KL = kl,
             mean_loss = m\<rparr>]"
    and "bin_log s' = bin_log s"
    and "warned s' = warned s"
    and "eta s' = eta s"
    and "accu s' = accu (with_batch E s)"
    and "stable_accu s' = stable_accu (with_batch E s)"
    and "v s' = vadd (set_zero (index_no_train s)
                        (smult (- eta s) (vadd g (smult (temperature s) gk))))
                     (smult (momentum s) (v s))"
    and "post_param s' = vadd (post_param s) (v s')"
    and "post s' = proba_map (post_param s')"
    and "prev_score s' = Fin (m + temperature s * kl)"
  using u
  by (cases rule: update_InrE;
      insert sg k b;
      simp add: accept_fields with_batch_fields)+

lemma ex_run1: "updates ex_env 1 (GB_init ex_env ex_config) = Inr ex_state1"
  by code_simp

lemma ex_sg1: "get_score_grad ex_env (with_batch ex_env ex_state1) = ([1, 1], 10, 1)"
  by code_simp

lemma ex_kl1:
  "grad_kl_of ex_env (prior_param ex_state1) (post_param ex_state1) (n_grad_kl ex_state1) =
     ([1, 2], 0)"
  by code_simp

lemma ex_bad1: "is_bad_step ex_state1 (Fin (10 + temperature ex_state1 * 0)) (Fin 1)"
  by code_simp

lemma ex_sched1: "1 < length (c_per_step ex_config)"
  by (simp add: ex_config_def)

lemma ex_sched3: "3 \<le> length (c_per_step ex_config)"
  by (simp add: ex_config_def)

lemma ex_cond1:
  "xgt (xminus (Fin (10 + temperature ex_state1 * 0)) (prev_score ex_state1))
       (xtimes (refuse_factor ex_state1) (Fin 1))"
  by code_simp

lemma ex_full:
  "gen_sample ex_env ((GB_init ex_env ex_config)\<lparr>accu := new_dens 0\<rparr>) = Inl FullMemory"
  by code_simp

lemma ex_full_add: "dens_n_tot (new_dens 0) < dens_n_filled (new_dens 0) + length [[0::real]]"
  by code_simp

lemma length_vadd: "length (vadd a b) = min (length a) (length b)"
  by (simp add: vadd_def)

lemma length_smult: "length (smult c a) = length a"
  by (simp add: smult_def)

lemma length_sdiv: "length (sdiv a c) = length a"
  by (simp add: sdiv_def)

lemma length_zeros: "length (zeros d) = d"
  by (simp add: zeros_def)

lemma nth_vadd: "i < length a \<Longrightarrow> i < length b \<Longrightarrow> vadd a b ! i = a ! i + b ! i"
  by (simp add: vadd_def)

lemma nth_smult: "i < length a \<Longrightarrow> smult c a ! i = c * a ! i"
  by (simp add: smult_def)

lemma nth_sdiv: "i < length a \<Longrightarrow> sdiv a c ! i = a ! i / c"
  by (simp add: sdiv_def)

lemma nth_zeros: "i < d \<Longrightarrow> zeros d ! i = 0"
  by (simp add: zeros_def)

lemma tensordot0_length:
  assumes "\<forall>r \<in> set g. length r = d"
  shows "length (tensordot0 d c g) = d"
  using assms unfolding tensordot0_def
proof (induction g arbitrary: c)
  case Nil
  then show ?case by (simp add: length_zeros)
next
  case (Cons r g)
  show ?case
  proof (cases c)
    case Nil
    then show ?thesis by (simp add: length_zeros)
  next
    case (Cons x c')
    then show ?thesis
      using Cons.IH[of c'] Cons.prems by (simp add: length_vadd length_smult)
  qed
qed

lemma tensordot0_nth:
  assumes "length c = length g" and "\<forall>r \<in> set g. length r = d" and "j < d"
  shows "tensordot0 d c g ! j = (\<Sum>i<length g. c ! i * (g ! i ! j))"
  using assms
proof (induction c g rule: list_induct2)
  case Nil
  then show ?case by (simp add: tensordot0_def nth_zeros)
next
  case (Cons x c r g)
  have l: "length (tensordot0 d c g) = d"
    using Cons.prems by (intro tensordot0_length) simp
  have "tensordot0 d (x # c) (r # g) = vadd (smult x r) (tensordot0 d c g)"
    by (simp add: tensordot0_def)
  then have "tensordot0 d (x # c) (r # g) ! j = x * r ! j + tensordot0 d c g ! j"
    using Cons.prems l by (simp add: nth_vadd nth_smult length_smult)
  also have "tensordot0 d c g ! j = (\<Sum>i<length g. c ! i * (g ! i ! j))"
    using Cons.IH Cons.prems by simp
  finally show ?case
    by (simp add: sum.lessThan_Suc_shift del: sum.lessThan_Suc)
qed

lemma gd_msg_end_step_Inr:
  "gd_msg_end_step s =
     Inr (s\<lparr>gd_printed := gd_printed s @ [end_msg (gd_count s) (gd_hist_log s)]\<rparr>)"
  unfolding gd_msg_end_step_def gd_super_msg_end_step_def py_first_def end_msg_def
  by (cases "VI_scores_last 1 (gd_hist_log s)") simp_all

lemma length_gd_batch: "length (gd_batch E s) = gd_per_step s ! gd_count s"
  by (simp add: gd_batch_def sample_of_def)

lemma gd_update_ok:
  assumes c: "gd_count s < length (gd_per_step s)"
    and cap: "val_n_filled (gd_accu s) + gd_per_step s ! gd_count s \<le> val_n_tot (gd_accu s)"
    and kl: "grad_kl_of E (gd_prior_param s) (gd_post_param s) (gd_n_grad_kl s) = (grad_kl, kl)"
  shows "gd_update E s =
     Inr (s\<lparr>gd_accu := (gd_accu s)\<lparr>val_gens := val_gens (gd_accu s) @
                [(gd_batch E s, map (loss E) (gd_batch E s))]\<rparr>,
            gd_hist_log := gd_hist_log s @
                [\<lparr>proba_par = gd_post_param s,
                  score = mean (map (loss E) (gd_batch E s)) + gd_temperature s * kl,
                  KL = kl, mean_loss = mean (map (loss E) (gd_batch E s))\<rparr>],
            gd_converged := check_conv E (gd_post_param s)
                (vadd (gd_post_param s)
                   (smult (- gd_eta s)
                      (vadd (gd_grad_expct E s) (smult (gd_temperature s) grad_kl)))),
            gd_post_param := vadd (gd_post_param s)
                   (smult (- gd_eta s)
                      (vadd (gd_grad_expct E s) (smult (gd_temperature s) grad_kl))),
            gd_post := proba_map (vadd (gd_post_param s)
                   (smult (- gd_eta s)
                      (vadd (gd_grad_expct E s) (smult (gd_temperature s) grad_kl)))),
            gd_count := gd_count s + 1,
            gd_printed := gd_printed s @
                [Score_at (gd_count s + 1)
                   (mean (map (loss E) (gd_batch E s)) + gd_temperature s * kl)]\<rparr>)"
proof -
  have e: "end_msg n (h @ [\<lparr>proba_par = p, score = sc, KL = k', mean_loss = m'\<rparr>]) =
      Score_at n sc" for n h p sc k' m'
    by (simp add: end_msg_def VI_scores_last_def)
  show ?thesis
    using c cap kl
    by (simp add: gd_update_def py_index_def val_add_def Let_def gd_msg_end_step_Inr add1_def e
        gd_batch_def gd_grad_expct_def sample_of_def)
qed

lemma gd_update_Inr:
  assumes "gd_update E s = Inr s'"
  shows "gd_count s < length (gd_per_step s)"
    and "val_n_filled (gd_accu s) + gd_per_step s ! gd_count s \<le> val_n_tot (gd_accu s)"
  using assms
  by (auto simp: gd_update_def py_index_def val_add_def Let_def sample_of_def
      split: if_splits sum.splits)

lemma gd_grad_expct_length:
  assumes sh: "\<forall>x. length (log_dens_der E (gd_post_param s) x) = length (gd_post_param s)"
  shows "length (gd_grad_expct E s) = length (gd_post_param s)"
proof -
  have "\<forall>r \<in> set (map (log_dens_der E (gd_post_param s)) (gd_batch E s)).
      length r = length (gd_post_param s)"
    using sh by auto
  then show ?thesis
    by (simp add: gd_grad_expct_def length_sdiv tensordot0_length)
qed

lemma gd_grad_expct_nth:
  assumes sh: "\<forall>x. length (log_dens_der E (gd_post_param s) x) = length (gd_post_param s)"
    and j: "j < length (gd_post_param s)"
  shows "gd_grad_expct E s ! j =
     (\<Sum>i<gd_per_step s ! gd_count s.
        (loss E (gd_batch E s ! i) - mean (map (loss E) (gd_batch E s))) *
        (log_dens_der E (gd_post_param s) (gd_batch E s ! i) ! j))
     / real (gd_per_step s ! gd_count s)"
proof -
  let ?b = "gd_batch E s"
  let ?c = "map (\<lambda>x. x - mean (map (loss E) ?b)) (map (loss E) ?b)"
  let ?g = "map (log_dens_der E (gd_post_param s)) ?b"
  let ?d = "length (gd_post_param s)"
  have rows: "\<forall>r \<in> set ?g. length r = ?d" using sh by auto
  have len: "length (tensordot0 ?d ?c ?g) = ?d"
    using rows by (rule tensordot0_length)
  have "tensordot0 ?d ?c ?g ! j = (\<Sum>i<length ?g. ?c ! i * (?g ! i ! j))"
    using rows j by (intro tensordot0_nth) simp_all
  also have "\<dots> = (\<Sum>i<gd_per_step s ! gd_count s.
        (loss E (?b ! i) - mean (map (loss E) ?b)) *
        (log_dens_der E (gd_post_param s) (?b ! i) ! j))"
    by (intro sum.cong) (simp_all add: length_gd_batch)
  finally show ?thesis
    using len j by (simp add: gd_grad_expct_def nth_sdiv)
qed

lemma ex_gd_step1: "gd_update ex_env (GD_init ex_env ex_gd_config) = Inr ex_gd_state1"
  by code_simp

lemma ex_gd_step1_0: "gd_update ex_env0 (GD_init ex_env0 ex_gd_config) = Inr ex_gd_state1"
  by code_simp

lemma ex_step0_1: "update ex_env0 (GB_init ex_env0 ex_config0) = Inr ex_state0_1"
  by code_simp

lemma vadd_smult_zero: "length a = length b \<Longrightarrow> vadd a (smult 0 b) = a"
  by (induction a b rule: list_induct2) (simp_all add: vadd_def smult_def)

lemma length_set_zero: "length (set_zero idx a) = length a"
  unfolding set_zero_def by (induction idx arbitrary: a) simp_all

lemma set_zero_nth_other: "i \<notin> set idx \<Longrightarrow> set_zero idx a ! i = a ! i"
  unfolding set_zero_def by (induction idx arbitrary: a) simp_all

lemma set_zero_nth_frozen: "i \<in> set idx \<Longrightarrow> i < length a \<Longrightarrow> set_zero idx a ! i = 0"
  unfolding set_zero_def
proof (induction idx arbitrary: a)
  case Nil
  then show ?case by simp
next
  case (Cons j idx)
  show ?case
  proof (cases "i \<in> set idx")
    case True
    then show ?thesis using Cons.IH[of "a[j := 0]"] Cons.prems by simp
  next
    case False
    then have "i = j" using Cons.prems by simp
    then show ?thesis
      using False set_zero_nth_other[of i idx "a[j := 0]"] Cons.prems
      by (simp add: set_zero_def)
  qed
qed

lemma set_zero_Nil: "set_zero [] a = a"
  by (simp add: set_zero_def)

lemma ex_gd_kl:
  "grad_kl_of ex_env (gd_prior_param (GD_init ex_env ex_gd_config))
     (gd_post_param (GD_init ex_env ex_gd_config)) (gd_n_grad_kl (GD_init ex_env ex_gd_config)) =
   ([1, 2], 0)"
  by code_simp

lemma ex_gd_shape:
  "\<forall>x. length (log_dens_der ex_env (gd_post_param (GD_init ex_env ex_gd_config)) x) =
       length (gd_post_param (GD_init ex_env ex_gd_config))"
  by (simp add: ex_env_def GD_init_def ex_gd_config_def Let_def)

lemma ex_gd_shape_kl: "length [1, 2 :: real] = length (gd_post_param (GD_init ex_env ex_gd_config))"
  by code_simp

lemma ex_gd_count:
  "gd_count (GD_init ex_env ex_gd_config) < length (gd_per_step (GD_init ex_env ex_gd_config))"
  by code_simp

lemma ex_gd_pos:
  "0 < gd_per_step (GD_init ex_env ex_gd_config) ! gd_count (GD_init ex_env ex_gd_config)"
  by code_simp

lemma ex_gd_cap:
  "val_n_filled (gd_accu (GD_init ex_env ex_gd_config)) +
     gd_per_step (GD_init ex_env ex_gd_config) ! gd_count (GD_init ex_env ex_gd_config)
   \<le> val_n_tot (gd_accu (GD_init ex_env ex_gd_config))"
  by code_simp

lemma ex0_mom: "momentum (GB_init ex_env0 ex_config0) = 0"
  by code_simp

lemma ex0_sg:
  "get_score_grad ex_env0 (with_batch ex_env0 (GB_init ex_env0 ex_config0)) = ([0, 0], 0, 1)"
  by code_simp

lemma ex0_kl:
  "grad_kl_of ex_env0 (prior_param (GB_init ex_env0 ex_config0))
     (post_param (GB_init ex_env0 ex_config0)) (n_grad_kl (GB_init ex_env0 ex_config0)) =
   ([1, 2], 0)"
  by code_simp

lemma ex0_not_bad:
  "\<not> is_bad_step (GB_init ex_env0 ex_config0)
       (Fin (0 + temperature (GB_init ex_env0 ex_config0) * 0)) (Fin 1)"
  by code_simp

lemma ex0_lengths:
  "length [0, 0 :: real] = length (post_param (GB_init ex_env0 ex_config0))"
  "length [1, 2 :: real] = length (post_param (GB_init ex_env0 ex_config0))"
  "length (v (GB_init ex_env0 ex_config0)) = length (post_param (GB_init ex_env0 ex_config0))"
  by code_simp+

lemma ex0_gd_kl:
  "grad_kl_of ex_env0 (gd_prior_param (GD_init ex_env0 ex_gd_config))
     (gd_post_param (GD_init ex_env0 ex_gd_config))
     (gd_n_grad_kl (GD_init ex_env0 ex_gd_config)) = ([1, 2], 0)"
  by code_simp

lemma ex0_gd_lengths:
  "length (gd_grad_expct ex_env0 (GD_init ex_env0 ex_gd_config)) =
     length (gd_post_param (GD_init ex_env0 ex_gd_config))"
  "length [1, 2 :: real] = length (gd_post_param (GD_init ex_env0 ex_gd_config))"
  by code_simp+

lemma ex0_same:
  "c_momentum ex_config0 = 0" "c_index_train ex_config0 = None"
  "c_eta ex_gd_config = c_eta ex_config0" "c_temperature ex_gd_config = c_temperature ex_config0"
  "c_post_param ex_gd_config = c_post_param ex_config0"
  "c_prior_param ex_gd_config = c_prior_param ex_config0"
  "c_n_grad_kl ex_gd_config = c_n_grad_kl ex_config0"
  "proba_param_shape ex_env0 = length (c_post_param ex_config0)"
  by code_simp+

lemma ex0_sg_same:
  "get_score_grad ex_env0 (with_batch ex_env0 (GB_init ex_env0 ex_config0)) =
     (gd_grad_expct ex_env0 (GD_init ex_env0 ex_gd_config), 0, 1)"
  by code_simp

lemma ex0_lengths_c:
  "length (gd_grad_expct ex_env0 (GD_init ex_env0 ex_gd_config)) =
     length (c_post_param ex_config0)"
  "grad_kl_of ex_env0 (c_prior_param ex_config0) (c_post_param ex_config0)
     (c_n_grad_kl ex_config0) = ([1, 2], 0)"
  "length [1, 2 :: real] = length (c_post_param ex_config0)"
  by code_simp+


lemma no_train_of_Some:
  "i \<in> set (no_train_of n (Some tr)) \<longleftrightarrow> i < n \<and> int i \<notin> set tr"
  by (auto simp: no_train_of_def)

lemma frozen_inv_init:
  assumes "proba_param_shape E = length (c_post_param c)"
    and "length (c_prior_param c) = length (c_post_param c)"
  shows "frozen_inv (length (c_post_param c)) (c_post_param c) (GB_init E c)"
  using assms
  by (cases "c_index_train c")
     (auto simp: frozen_inv_def GB_init_fields length_zeros nth_zeros no_train_of_def)

lemma frozen_inv_update:
  assumes sh: "shapes_ok E d" and d: "proba_param_shape E = d"
    and inv: "frozen_inv d p0 s" and u: "update E s = Inr s'"
  shows "frozen_inv d p0 s'"
  using u
proof (cases rule: update_InrE)
  case (bad g m u gk kl)
  let ?h = "butlast (hist_log s)"
  have sub: "set ?h \<subseteq> set (hist_log s)"
    by (auto dest: in_set_butlastD)
  have hist: "\<forall>r \<in> set ?h. length (proba_par r) = d \<and>
      (\<forall>i \<in> set (index_no_train s). proba_par r ! i = p0 ! i)"
    using inv sub by (auto simp: frozen_inv_def)
  have par: "length (post_param s') = d \<and>
      (\<forall>i \<in> set (index_no_train s). post_param s' ! i = p0 ! i)"
  proof (cases "?h = []")
    case True
    then show ?thesis
      using inv by (simp add: bad(6) restore_last_empty frozen_inv_def with_batch_fields)
  next
    case False
    then have "last ?h \<in> set ?h" by simp
    then show ?thesis
      using hist False by (simp add: bad(6) restore_last_nonempty with_batch_fields)
  qed
  show ?thesis
    using inv par hist d
    by (simp add: frozen_inv_def bad(6) restore_last_fields with_batch_fields length_zeros
        nth_zeros)
next
  case (good g m u gk kl)
  have lp: "length (post_param s) = d" and lv: "length (v s) = d"
    using inv by (simp_all add: frozen_inv_def)
  have "g = fst (grad_score E (accu (with_batch E s)) (post_param s) (k s) (gen_decay s))"
    using good(2) by (simp add: get_score_grad_def with_batch_def)
  then have lg: "length g = d" using sh lp by (simp add: shapes_ok_def)
  have "gk = fst (grad_kl_of E (prior_param s) (post_param s) (n_grad_kl s))"
    using good(3) by simp
  then have lk: "length gk = d" using sh lp by (simp add: shapes_ok_def)
  let ?raw = "smult (- eta s) (vadd g (smult (temperature s) gk))"
  let ?v = "vadd (set_zero (index_no_train s) ?raw) (smult (momentum s) (v s))"
  have lraw: "length ?raw = d"
    using lg lk by (simp add: length_smult length_vadd)
  have lv': "length ?v = d"
    using lraw lv by (simp add: length_vadd length_set_zero length_smult)
  have vz: "?v ! i = 0" if "i \<in> set (index_no_train s)" for i
  proof -
    have i: "i < d" and z: "v s ! i = 0"
      using inv that by (simp_all add: frozen_inv_def)
    have "?v ! i = set_zero (index_no_train s) ?raw ! i + momentum s * v s ! i"
      using i lraw lv by (simp add: nth_vadd nth_smult length_set_zero length_smult)
    then show ?thesis
      using set_zero_nth_frozen[OF that, of ?raw] i lraw z by simp
  qed
  have pz: "vadd (post_param s) ?v ! i = p0 ! i" if "i \<in> set (index_no_train s)" for i
  proof -
    have i: "i < d" and p: "post_param s ! i = p0 ! i"
      using inv that by (simp_all add: frozen_inv_def)
    show ?thesis using i lp lv' vz[OF that] p by (simp add: nth_vadd)
  qed
  show ?thesis
    using inv lv' vz pz lp
    by (auto simp: frozen_inv_def good(5) accept_fields with_batch_fields length_vadd)
qed

lemma frozen_inv_updates:
  assumes sh: "shapes_ok E d" and d: "proba_param_shape E = d"
    and inv: "frozen_inv d p0 s" and r: "updates E n s = Inr s'"
  shows "frozen_inv d p0 s'"
  using inv r
proof (induction n arbitrary: s)
  case 0
  then show ?case by simp
next
  case (Suc n)
  then obtain s1 where u: "update E s = Inr s1" and r: "updates E n s1 = Inr s'"
    by (cases "update E s") simp_all
  show ?case
    using Suc.IH[OF frozen_inv_update[OF sh d Suc.prems(1) u] r] .
qed

lemma ex_shapes_ok: "shapes_ok ex_env (length (c_post_param ex_config))"
  by (simp add: shapes_ok_def ex_env_def ex_config_def)

lemma ex_frozen_facts:
  "proba_param_shape ex_env = length (c_post_param ex_config)"
  "length (c_prior_param ex_config) = length (c_post_param ex_config)"
  "c_index_train ex_config = Some [0]"
  "1 < length (c_prior_param ex_config)"
  "int 1 \<notin> set [0]"
  by code_simp+

lemma py_first_VI_scores_last:
  "h \<noteq> [] \<Longrightarrow> py_first (VI_scores_last 1 h) = Inr (score (last h))"
  by (cases h rule: rev_cases) (simp_all add: VI_scores_last_def py_first_def)

lemma py_first_VI_scores_last_Nil: "py_first (VI_scores_last 1 []) = Inl IndexError"
  by (simp add: VI_scores_last_def py_first_def)

lemma process_result_nonempty:
  assumes "hist_log s \<noteq> []"
  shows "process_result s =
     Inr \<lparr>opti_param = post_param s, res_converged = converged s,
          opti_score = score (last (hist_log s)),
          hist_param = map proba_par (hist_log s),
          hist_score = map score (hist_log s),
          end_param = post_param s, log_vi = hist_log s, bin_log_vi = bin_log s,
          sample_val = accu s\<rparr>"
  unfolding process_result_def py_first_VI_scores_last[OF assms]
  by (simp add: proba_pars_def VI_scores_def)

lemma process_result_empty:
  assumes "hist_log s = []"
  shows "process_result s = Inl IndexError"
  unfolding process_result_def assms py_first_VI_scores_last_Nil by simp

lemma process_result_stable: "process_result (s\<lparr>stable_accu := a\<rparr>) = process_result s"
  by (cases "py_first (VI_scores_last 1 (hist_log s))") (simp_all add: process_result_def)

lemma ex3_hist: "hist_log ex_state3 \<noteq> []"
  by code_simp

lemma mean_sum:
  "mean (map f xs) = (\<Sum>i<length xs. f (xs ! i)) / real (length xs)"
proof -
  have "sum_list (map f xs) = (\<Sum>i<length xs. f (xs ! i))"
    by (simp add: sum_list_sum_nth atLeast0LessThan)
  then show ?thesis by (simp add: mean_def)
qed

lemma ex_gd2_step1: "gd_update ex_env_gd (GD_init ex_env_gd ex_gd_config2) = Inr ex_gd2_state1"
  by code_simp

lemma ex_gd2_kl:
  "grad_kl_of ex_env_gd (gd_prior_param (GD_init ex_env_gd ex_gd_config2))
     (gd_post_param (GD_init ex_env_gd ex_gd_config2))
     (gd_n_grad_kl (GD_init ex_env_gd ex_gd_config2)) = ([1, 2], 0)"
  by code_simp

lemma ex_gd2_shape:
  "\<forall>x. length (log_dens_der ex_env_gd (gd_post_param (GD_init ex_env_gd ex_gd_config2)) x) =
       length (gd_post_param (GD_init ex_env_gd ex_gd_config2))"
  by (simp add: ex_env_gd_def ex_env_def GD_init_def ex_gd_config2_def ex_gd_config_def Let_def)

lemma ex_gd2_facts:
  "length [1, 2 :: real] = length (gd_post_param (GD_init ex_env_gd ex_gd_config2))"
  "gd_count (GD_init ex_env_gd ex_gd_config2) <
     length (gd_per_step (GD_init ex_env_gd ex_gd_config2))"
  "0 < gd_per_step (GD_init ex_env_gd ex_gd_config2) ! gd_count (GD_init ex_env_gd ex_gd_config2)"
  "val_n_filled (gd_accu (GD_init ex_env_gd ex_gd_config2)) +
     gd_per_step (GD_init ex_env_gd ex_gd_config2) ! gd_count (GD_init ex_env_gd ex_gd_config2)
   \<le> val_n_tot (gd_accu (GD_init ex_env_gd ex_gd_config2))"
  by code_simp+

lemma ex_gd2_values:
  "gd_per_step (GD_init ex_env_gd ex_gd_config2) ! gd_count (GD_init ex_env_gd ex_gd_config2) = 2"
  "gd_batch ex_env_gd (GD_init ex_env_gd ex_gd_config2) = [[0, 0], [0, 1]]"
  "map (loss ex_env_gd) (gd_batch ex_env_gd (GD_init ex_env_gd ex_gd_config2)) = [0, 1]"
  "map (log_dens_der ex_env_gd (gd_post_param (GD_init ex_env_gd ex_gd_config2)))
     (gd_batch ex_env_gd (GD_init ex_env_gd ex_gd_config2)) = [[0, 1], [1, 1]]"
  "gd_grad_expct ex_env_gd (GD_init ex_env_gd ex_gd_config2) = [1 / 4, 0]"
  "gd_post_param (GD_init ex_env_gd ex_gd_config2) = [0, 0]"
  "gd_eta (GD_init ex_env_gd ex_gd_config2) = 1"
  "gd_temperature (GD_init ex_env_gd ex_gd_config2) = 1"
  "gd_post_param ex_gd2_state1 = [- (5 / 4), - 2]"
  "gd_count ex_gd2_state1 = 1"
  "gd_hist_log ex_gd2_state1 =
     [\<lparr>proba_par = [0, 0], score = 1 / 2, KL = 0, mean_loss = 1 / 2\<rparr>]"
  "loss ex_env_gd [0, 0] = 0" "loss ex_env_gd [0, 1] = 1"
  "log_dens_der ex_env_gd [0, 0] [0, 0] = [0, 1]"
  "log_dens_der ex_env_gd [0, 0] [0, 1] = [1, 1]"
  by code_simp+

lemma exuq_run1: "updates ex_env_uq 1 (GB_init ex_env_uq ex_config) = Inr exuq_state1"
  by code_simp

lemma exuq_run2: "updates ex_env_uq 2 (GB_init ex_env_uq ex_config) = Inr exuq_state2"
  by code_simp

lemma exuq_step2: "update ex_env_uq exuq_state1 = Inr exuq_state2"
  by code_simp

lemma exuq_step3: "update ex_env_uq exuq_state2 = Inr exuq_state3"
  by code_simp

lemma is_bad_step_finite:
  assumes "prev_score t = Fin p" and "refuse_factor t = Fin r"
  shows "is_bad_step t (Fin x) (Fin u) = (r * u < x - p)"
  using assms by (simp add: is_bad_step_def)

lemma update_prev_score:
  assumes "update E s = Inr s'"
  shows "prev_score s' = PInf \<or> (\<exists>p. prev_score s' = Fin p)"
  using assms
proof (cases rule: update_InrE)
  case (bad g m u gk kl)
  note f = update_bad_fields[OF bad(2) bad(3) bad(4) assms]
  show ?thesis
    using f(12) f(15) by (cases "hist_log s' = []") simp_all
next
  case (good g m u gk kl)
  show ?thesis
    using update_good_fields(10)[OF good(2) good(3) good(4) assms] by simp
qed

lemma reach_prev_score:
  assumes "updates E n (GB_init E c) = Inr s"
  shows "prev_score s = PInf \<or> (\<exists>p. prev_score s = Fin p)"
proof (cases n)
  case 0
  then have "s = GB_init E c" using assms by simp
  then show ?thesis by (simp add: GB_init_fields)
next
  case (Suc m)
  then obtain s1 where "update E s1 = Inr s"
    using assms unfolding Suc updates_snoc by (cases "updates E m (GB_init E c)") simp_all
  then show ?thesis by (rule update_prev_score)
qed

lemma update_eta_warned:
  assumes "update E s = Inr s'"
  shows "(warned s' = warned s \<and> eta s' = eta s) \<or>
         (\<exists>w. warned s' = warned s @ [w] \<and> eta s' = eta s * corr_eta s)"
  using assms
proof (cases rule: update_InrE)
  case (bad g m u gk kl)
  note f = update_bad_fields[OF bad(2) bad(3) bad(4) assms]
  show ?thesis using f(3) f(8) by simp
next
  case (good g m u gk kl)
  note f = update_good_fields[OF good(2) good(3) good(4) assms]
  show ?thesis using f(3) f(4) by simp
qed

lemma updates_eta_warned:
  assumes "updates E n s = Inr s'"
  shows "\<exists>ws. warned s' = warned s @ ws \<and> eta s' = eta s * corr_eta s ^ length ws"
  using assms
proof (induction n arbitrary: s)
  case 0
  then show ?case by simp
next
  case (Suc n)
  then obtain s1 where u: "update E s = Inr s1" and r: "updates E n s1 = Inr s'"
    by (cases "update E s") simp_all
  from Suc.IH[OF r] obtain ws where
    ws: "warned s' = warned s1 @ ws" "eta s' = eta s1 * corr_eta s1 ^ length ws"
    by blast
  have c: "corr_eta s1 = corr_eta s" using update_frame[OF u] by simp
  from update_eta_warned[OF u] show ?case
  proof
    assume "warned s1 = warned s \<and> eta s1 = eta s"
    then show ?thesis using ws c by (intro exI[of _ ws]) simp
  next
    assume "\<exists>w. warned s1 = warned s @ [w] \<and> eta s1 = eta s * corr_eta s"
    then obtain w where "warned s1 = warned s @ [w]" "eta s1 = eta s * corr_eta s"
      by blast
    then show ?thesis using ws c by (intro exI[of _ "w # ws"]) simp
  qed
qed

lemma reach_eta:
  assumes "updates E n (GB_init E c) = Inr s"
  shows "eta s = c_eta c * (1 - c_momentum c) * c_corr_eta c ^ length (warned s)"
    and "momentum s = c_momentum c"
proof -
  from updates_eta_warned[OF assms] obtain ws where
    "warned s = warned (GB_init E c) @ ws"
    "eta s = eta (GB_init E c) * corr_eta (GB_init E c) ^ length ws"
    by blast
  then show "eta s = c_eta c * (1 - c_momentum c) * c_corr_eta c ^ length (warned s)"
    by (simp add: GB_init_fields)
  show "momentum s = c_momentum c"
    using updates_frame[OF assms] by (simp add: GB_init_fields)
qed

lemma accepted_step_momentum_zero:
  assumes mom: "momentum s = 0"
    and sg: "get_score_grad E (with_batch E s) = (g, m, u)"
    and k: "grad_kl_of E (prior_param s) (post_param s) (n_grad_kl s) = (gk, kl)"
    and nb: "\<not> is_bad_step s (Fin (m + temperature s * kl)) (Fin u)"
    and u: "update E s = Inr s'"
    and lg: "length g = length (post_param s)" and lk: "length gk = length (post_param s)"
    and lv: "length (v s) = length (post_param s)"
  shows "v s' = set_zero (index_no_train s)
               (smult (- eta s) (vadd g (smult (temperature s) gk)))"
    and "post_param s' = vadd (post_param s) (v s')"
    and "\<forall>i<length (post_param s). i \<notin> set (index_no_train s) \<longrightarrow>
         post_param s' ! i = post_param s ! i - eta s * (g ! i + temperature s * gk ! i)"
proof -
  note f = update_good_fields[OF sg k nb u]
  let ?raw = "smult (- eta s) (vadd g (smult (temperature s) gk))"
  have lraw: "length ?raw = length (post_param s)"
    using lg lk by (simp add: length_smult length_vadd)
  show v: "v s' = set_zero (index_no_train s) ?raw"
    using f(7) mom vadd_smult_zero[of "set_zero (index_no_train s) ?raw" "v s"] lraw lv
    by (simp add: length_set_zero)
  show "post_param s' = vadd (post_param s) (v s')"
    by (rule f(8))
  show "\<forall>i<length (post_param s). i \<notin> set (index_no_train s) \<longrightarrow>
         post_param s' ! i = post_param s ! i - eta s * (g ! i + temperature s * gk ! i)"
  proof (intro allI impI)
    fix i assume i: "i < length (post_param s)" and nf: "i \<notin> set (index_no_train s)"
    have "post_param s' ! i = post_param s ! i + set_zero (index_no_train s) ?raw ! i"
      using i lraw by (simp add: f(8) v nth_vadd length_set_zero)
    also have "set_zero (index_no_train s) ?raw ! i = ?raw ! i"
      using nf by (rule set_zero_nth_other)
    also have "?raw ! i = - eta s * (g ! i + temperature s * gk ! i)"
      using i lg lk by (simp add: nth_smult nth_vadd length_vadd length_smult)
    finally show "post_param s' ! i =
        post_param s ! i - eta s * (g ! i + temperature s * gk ! i)"
      by simp
  qed
qed

lemma gd_update_eta:
  assumes "gd_update E r = Inr r'"
  shows "gd_eta r' = gd_eta r"
proof -
  obtain gk kl where k: "grad_kl_of E (gd_prior_param r) (gd_post_param r) (gd_n_grad_kl r) = (gk, kl)"
    by (cases "grad_kl_of E (gd_prior_param r) (gd_post_param r) (gd_n_grad_kl r)") auto
  show ?thesis
    using assms unfolding gd_update_ok[OF gd_update_Inr[OF assms] k] by auto
qed

lemma exuq_facts1:
  "prev_eval_ok ex_config" "1 < length (c_per_step ex_config)"
  "prev_score exuq_state1 = Fin 1" "refuse_factor exuq_state1 = Fin 2"
  "get_score_grad ex_env_uq (with_batch ex_env_uq exuq_state1) = ([1, 1], 6, 3)"
  "grad_kl_of ex_env_uq (prior_param exuq_state1) (post_param exuq_state1)
     (n_grad_kl exuq_state1) = ([1, 2], 0)"
  "temperature exuq_state1 = 1"
  "c_refuse_conf ex_config = 99 / 100" "ppf ex_env_uq (99 / 100) = Fin 2"
  by code_simp+

lemma exuq_facts2:
  "2 < length (c_per_step ex_config)"
  "prev_score exuq_state2 = Fin 6" "refuse_factor exuq_state2 = Fin 2"
  "get_score_grad ex_env_uq (with_batch ex_env_uq exuq_state2) = ([1, 1], 20, 3)"
  "grad_kl_of ex_env_uq (prior_param exuq_state2) (post_param exuq_state2)
     (n_grad_kl exuq_state2) = ([1, 2], 0)"
  "temperature exuq_state2 = 1"
  by code_simp+

lemma exuq_run3: "updates ex_env_uq 3 (GB_init ex_env_uq ex_config) = Inr exuq_state3"
  by code_simp

lemma exuq_c4_facts:
  "c_momentum ex_config = 0"
  "warned exuq_state1 = []"
  "\<not> is_bad_step exuq_state1 (Fin (6 + temperature exuq_state1 * 0)) (Fin 3)"
  "length [1, 1 :: real] = length (post_param exuq_state1)"
  "length [1, 2 :: real] = length (post_param exuq_state1)"
  "length (v exuq_state1) = length (post_param exuq_state1)"
  by code_simp+

lemma exuq_c4_values:
  "0 < length (post_param exuq_state1)"
  "0 \<notin> set (index_no_train exuq_state1)"
  "c_eta ex_config = 1" "c_corr_eta ex_config = 1 / 2"
  "post_param exuq_state1 ! 0 = - 2" "post_param exuq_state2 ! 0 = - 4"
  "length (warned exuq_state3) = 1" "eta exuq_state3 = 1 / 2"
  by code_simp+
section \<open>The claims\<close>

text \<open>
  C1. The rollback of a bad step. In a state reached by a run from the constructor, with a
  step left in the schedule, a step whose score test is bad makes update return (no
  exception) a state where: the momentum vector is the zero vector; the learning rate is
  the old one times \<open>corr_eta\<close>, and every later state of the run has that learning rate
  times a further power of \<open>corr_eta\<close> (nothing restores it); the accumulator with
  densities has lost the new generation and the one before it; the primary log was not
  empty and has lost its last record, which is now the last record of the bin log; and the
  parameter, the cached distribution and \<open>prev_score\<close> are those of the last record left in
  the primary log or, when none is left, the initial parameter of the run and \<open>+\<infinity>\<close>.
\<close>

theorem bad_step_rollback:
  assumes ok: "prev_eval_ok c"
    and reach: "updates E n (GB_init E c) = Inr s"
    and sched: "n < length (c_per_step c)"
    and sg: "get_score_grad E (with_batch E s) = (g, m, u)"
    and kl: "grad_kl_of E (prior_param s) (post_param s) (n_grad_kl s) = (gk, kl)"
    and bad: "is_bad_step s (Fin (m + temperature s * kl)) (Fin u)"
  shows "\<exists>s'. update E s = Inr s' \<and>
           v s' = zeros (proba_param_shape E) \<and>
           eta s' = eta s * corr_eta s \<and>
           (\<forall>j s''. updates E j s' = Inr s'' \<longrightarrow>
              (\<exists>i\<le>j. eta s'' = eta s * corr_eta s * corr_eta s ^ i)) \<and>
           dens_gens (accu s') = butlast (dens_gens (accu s)) \<and>
           hist_log s \<noteq> [] \<and>
           hist_log s' = butlast (hist_log s) \<and>
           bin_log s' = bin_log s @ [last (hist_log s)] \<and>
           (if hist_log s' = []
            then post_param s' = c_post_param c \<and> post s' = proba_map (c_post_param c) \<and>
                 prev_score s' = PInf
            else post_param s' = proba_par (last (hist_log s')) \<and>
                 post s' = proba_map (proba_par (last (hist_log s'))) \<and>
                 prev_score s' = Fin (score (last (hist_log s'))))"
proof -
  have inv: "run_inv s" and cnt: "count s = n" and ps: "per_step s = c_per_step c"
    using updates_reach_inv[OF run_inv_init[OF ok] reach] by (simp_all add: GB_init_fields)
  have "count s < length (per_step s)" using cnt ps sched by simp
  from update_total[OF inv this] obtain s' where u: "update E s = Inr s'" by blast
  note f = update_bad_fields[OF sg kl bad u]
  have ini: "ini_post_param s = c_post_param c"
    using updates_frame[OF reach] by (simp add: GB_init_fields)
  have ce: "corr_eta s' = corr_eta s" using update_frame[OF u] by simp
  have later: "\<exists>i\<le>j. eta s'' = eta s * corr_eta s * corr_eta s ^ i"
    if "updates E j s' = Inr s''" for j s''
    using updates_eta[OF that] by (simp add: f(3) ce)
  show ?thesis
  proof (intro exI[of _ s'] conjI)
    show "update E s = Inr s'" by (rule u)
    show "\<forall>j s''. updates E j s' = Inr s'' \<longrightarrow>
        (\<exists>i\<le>j. eta s'' = eta s * corr_eta s * corr_eta s ^ i)"
      using later by blast
    show "if hist_log s' = []
      then post_param s' = c_post_param c \<and> post s' = proba_map (c_post_param c) \<and>
           prev_score s' = PInf
      else post_param s' = proba_par (last (hist_log s')) \<and>
           post s' = proba_map (proba_par (last (hist_log s'))) \<and>
           prev_score s' = Fin (score (last (hist_log s')))"
      using f(10-15) ini by simp
  qed (use f in simp_all)
qed

theorem bad_step_rollback_witness:
  "prev_eval_ok ex_config \<and>
   updates ex_env 1 (GB_init ex_env ex_config) = Inr ex_state1 \<and>
   1 < length (c_per_step ex_config) \<and>
   get_score_grad ex_env (with_batch ex_env ex_state1) = ([1, 1], 10, 1) \<and>
   grad_kl_of ex_env (prior_param ex_state1) (post_param ex_state1) (n_grad_kl ex_state1) =
     ([1, 2], 0) \<and>
   is_bad_step ex_state1 (Fin (10 + temperature ex_state1 * 0)) (Fin 1) \<and>
   (\<exists>s'. update ex_env ex_state1 = Inr s' \<and>
         v s' = zeros (proba_param_shape ex_env) \<and>
         eta s' = eta ex_state1 * corr_eta ex_state1 \<and>
         dens_gens (accu s') = butlast (dens_gens (accu ex_state1)) \<and>
         hist_log s' = butlast (hist_log ex_state1) \<and>
         bin_log s' = bin_log ex_state1 @ [last (hist_log ex_state1)])"
proof -
  from bad_step_rollback[OF ex_prev_eval_ok ex_run1 ex_sched1 ex_sg1 ex_kl1 ex_bad1]
  have "\<exists>s'. update ex_env ex_state1 = Inr s' \<and>
         v s' = zeros (proba_param_shape ex_env) \<and>
         eta s' = eta ex_state1 * corr_eta ex_state1 \<and>
         dens_gens (accu s') = butlast (dens_gens (accu ex_state1)) \<and>
         hist_log s' = butlast (hist_log ex_state1) \<and>
         bin_log s' = bin_log ex_state1 @ [last (hist_log ex_state1)]"
    by blast
  then show ?thesis
    using ex_prev_eval_ok ex_run1 ex_sched1 ex_sg1 ex_kl1 ex_bad1 by blast
qed


text \<open>
  C2. The test of a bad step. \<open>refuse_factor\<close> is the inverse normal distribution function
  \<open>ppf\<close> at \<open>refuse_conf\<close>, set by the constructor and the same in every state of the run. A
  step is bad exactly when \<open>score_VI - prev_score > refuse_factor * score_UQ\<close> as floats: in
  every state of a run the previous score is a finite number or \<open>+\<infinity>\<close>; when it is the
  finite \<open>p\<close> and \<open>refuse_factor\<close> is the finite \<open>r\<close>, the step with score \<open>x\<close> and
  uncertainty \<open>u\<close> is bad exactly when \<open>r * u < x - p\<close> over the reals, and when it is
  \<open>+\<infinity>\<close> no step is bad. \<open>check_bad_grad\<close> returns that test and appends a warning exactly
  when it holds; the warning states the previous score, the new score and the
  uncertainty, and nothing else. A call of update that returns has, when the step is bad,
  appended that one warning and moved the last record of the primary log to the bin log,
  and has otherwise appended no warning and appended the record of the step to the primary
  log. The warning is no exception: in a state reached by a run, with a step left in the
  schedule, update returns whatever the test says.
\<close>

theorem bad_step_test:
  "refuse_factor (GB_init E c) = ppf E (c_refuse_conf c) \<and>
   (updates E n (GB_init E c) = Inr s \<longrightarrow> refuse_factor s = ppf E (c_refuse_conf c)) \<and>
   (updates E n (GB_init E c) = Inr s \<longrightarrow>
      prev_score s = PInf \<or> (\<exists>p. prev_score s = Fin p)) \<and>
   (prev_eval_ok c \<longrightarrow> updates E n (GB_init E c) = Inr s \<longrightarrow> n < length (c_per_step c) \<longrightarrow>
      (\<exists>s'. update E s = Inr s')) \<and>
   is_bad_step t x y = xgt (xminus x (prev_score t)) (xtimes (refuse_factor t) y) \<and>
   (prev_score t = Fin p \<longrightarrow> refuse_factor t = Fin r \<longrightarrow>
      is_bad_step t (Fin x0) (Fin u0) = (r * u0 < x0 - p)) \<and>
   (prev_score t = PInf \<longrightarrow> \<not> is_bad_step t x y) \<and>
   fst (check_bad_grad t x y) = is_bad_step t x y \<and>
   warned (snd (check_bad_grad t x y)) =
     (if is_bad_step t x y then warned t @ [ProbBadGrad (prev_score t) x y] else warned t) \<and>
   (get_score_grad E (with_batch E t) = (g, m, u) \<longrightarrow>
    grad_kl_of E (prior_param t) (post_param t) (n_grad_kl t) = (gk, kl) \<longrightarrow>
    update E t = Inr t' \<longrightarrow>
      (if is_bad_step t (Fin (m + temperature t * kl)) (Fin u)
       then warned t' = warned t @
              [ProbBadGrad (prev_score t) (Fin (m + temperature t * kl)) (Fin u)] \<and>
            hist_log t' = butlast (hist_log t) \<and>
            bin_log t' = bin_log t @ [last (hist_log t)]
       else warned t' = warned t \<and>
            hist_log t' = hist_log t @
              [\<lparr>proba_par = post_param t, score = m + temperature t * kl, KL = kl,
                mean_loss = m\<rparr>] \<and>
            bin_log t' = bin_log t))"
proof (intro conjI impI)
  show "refuse_factor (GB_init E c) = ppf E (c_refuse_conf c)"
    by (simp add: GB_init_fields)
  show "refuse_factor s = ppf E (c_refuse_conf c)" if "updates E n (GB_init E c) = Inr s"
    using updates_frame[OF that] by (simp add: GB_init_fields)
  show "prev_score s = PInf \<or> (\<exists>p. prev_score s = Fin p)"
    if "updates E n (GB_init E c) = Inr s"
    using that by (rule reach_prev_score)
  show "\<exists>s'. update E s = Inr s'"
    if ok: "prev_eval_ok c" and r: "updates E n (GB_init E c) = Inr s"
      and n: "n < length (c_per_step c)"
  proof -
    have "run_inv s" "count s = n" "per_step s = c_per_step c"
      using updates_reach_inv[OF run_inv_init[OF ok] r] by (simp_all add: GB_init_fields)
    then show ?thesis using n by (intro update_total) simp_all
  qed
  show "is_bad_step t x y = xgt (xminus x (prev_score t)) (xtimes (refuse_factor t) y)"
    by (simp add: is_bad_step_def)
  show "is_bad_step t (Fin x0) (Fin u0) = (r * u0 < x0 - p)"
    if "prev_score t = Fin p" "refuse_factor t = Fin r"
    using that by (rule is_bad_step_finite)
  show "\<not> is_bad_step t x y" if "prev_score t = PInf"
    using that by (rule not_bad_PInf)
  show "fst (check_bad_grad t x y) = is_bad_step t x y"
    by (simp add: check_bad_grad_def Let_def)
  show "warned (snd (check_bad_grad t x y)) =
     (if is_bad_step t x y then warned t @ [ProbBadGrad (prev_score t) x y] else warned t)"
    by (simp add: check_bad_grad_def Let_def)
  show "if is_bad_step t (Fin (m + temperature t * kl)) (Fin u)
       then warned t' = warned t @
              [ProbBadGrad (prev_score t) (Fin (m + temperature t * kl)) (Fin u)] \<and>
            hist_log t' = butlast (hist_log t) \<and>
            bin_log t' = bin_log t @ [last (hist_log t)]
       else warned t' = warned t \<and>
            hist_log t' = hist_log t @
              [\<lparr>proba_par = post_param t, score = m + temperature t * kl, KL = kl,
                mean_loss = m\<rparr>] \<and>
            bin_log t' = bin_log t"
    if sg: "get_score_grad E (with_batch E t) = (g, m, u)"
      and k: "grad_kl_of E (prior_param t) (post_param t) (n_grad_kl t) = (gk, kl)"
      and u: "update E t = Inr t'"
  proof (cases "is_bad_step t (Fin (m + temperature t * kl)) (Fin u)")
    case True
    then show ?thesis
      using update_bad_fields[OF sg k True u] by simp
  next
    case False
    then show ?thesis
      using update_good_fields[OF sg k False u] by simp
  qed
qed

theorem bad_step_test_witness:
  "prev_eval_ok ex_config \<and>
   updates ex_env_uq 1 (GB_init ex_env_uq ex_config) = Inr exuq_state1 \<and>
   1 < length (c_per_step ex_config) \<and>
   refuse_factor exuq_state1 = ppf ex_env_uq (c_refuse_conf ex_config) \<and>
   prev_score exuq_state1 = Fin 1 \<and> refuse_factor exuq_state1 = Fin 2 \<and>
   get_score_grad ex_env_uq (with_batch ex_env_uq exuq_state1) = ([1, 1], 6, 3) \<and>
   grad_kl_of ex_env_uq (prior_param exuq_state1) (post_param exuq_state1)
     (n_grad_kl exuq_state1) = ([1, 2], 0) \<and>
   update ex_env_uq exuq_state1 = Inr exuq_state2 \<and>
   is_bad_step exuq_state1 (Fin 6) (Fin 3) = (2 * 3 < 6 - (1 :: real)) \<and>
   \<not> is_bad_step exuq_state1 (Fin 6) (Fin 3) \<and>
   warned exuq_state2 = warned exuq_state1 \<and>
   hist_log exuq_state2 = hist_log exuq_state1 @
     [\<lparr>proba_par = post_param exuq_state1, score = 6, KL = 0, mean_loss = 6\<rparr>] \<and>
   updates ex_env_uq 2 (GB_init ex_env_uq ex_config) = Inr exuq_state2 \<and>
   2 < length (c_per_step ex_config) \<and>
   prev_score exuq_state2 = Fin 6 \<and> refuse_factor exuq_state2 = Fin 2 \<and>
   get_score_grad ex_env_uq (with_batch ex_env_uq exuq_state2) = ([1, 1], 20, 3) \<and>
   grad_kl_of ex_env_uq (prior_param exuq_state2) (post_param exuq_state2)
     (n_grad_kl exuq_state2) = ([1, 2], 0) \<and>
   update ex_env_uq exuq_state2 = Inr exuq_state3 \<and>
   is_bad_step exuq_state2 (Fin 20) (Fin 3) = (2 * 3 < 20 - (6 :: real)) \<and>
   is_bad_step exuq_state2 (Fin 20) (Fin 3) \<and>
   warned exuq_state3 = warned exuq_state2 @ [ProbBadGrad (Fin 6) (Fin 20) (Fin 3)] \<and>
   hist_log exuq_state3 = butlast (hist_log exuq_state2) \<and>
   bin_log exuq_state3 = bin_log exuq_state2 @ [last (hist_log exuq_state2)]"
proof -
  note A = bad_step_test[of ex_env_uq ex_config 1 exuq_state1 exuq_state1 "Fin 6" "Fin 3"
      1 2 6 3 "[1, 1]" 6 3 "[1, 2]" 0 exuq_state2]
  note B = bad_step_test[of ex_env_uq ex_config 2 exuq_state2 exuq_state2 "Fin 20" "Fin 3"
      6 2 20 3 "[1, 1]" 20 3 "[1, 2]" 0 exuq_state3]
  have a0: "refuse_factor exuq_state1 = ppf ex_env_uq (c_refuse_conf ex_config)"
    using A exuq_run1 by blast
  have a1: "is_bad_step exuq_state1 (Fin 6) (Fin 3) = (2 * 3 < 6 - (1 :: real))"
    using A exuq_facts1(3,4) by blast
  then have a2: "\<not> is_bad_step exuq_state1 (Fin 6) (Fin 3)" by simp
  have "if is_bad_step exuq_state1 (Fin (6 + temperature exuq_state1 * 0)) (Fin 3)
       then warned exuq_state2 = warned exuq_state1 @
              [ProbBadGrad (prev_score exuq_state1)
                 (Fin (6 + temperature exuq_state1 * 0)) (Fin 3)] \<and>
            hist_log exuq_state2 = butlast (hist_log exuq_state1) \<and>
            bin_log exuq_state2 = bin_log exuq_state1 @ [last (hist_log exuq_state1)]
       else warned exuq_state2 = warned exuq_state1 \<and>
            hist_log exuq_state2 = hist_log exuq_state1 @
              [\<lparr>proba_par = post_param exuq_state1,
                score = 6 + temperature exuq_state1 * 0, KL = 0, mean_loss = 6\<rparr>] \<and>
            bin_log exuq_state2 = bin_log exuq_state1"
    using A exuq_facts1(5,6) exuq_step2 by blast
  then have a3: "warned exuq_state2 = warned exuq_state1 \<and>
      hist_log exuq_state2 = hist_log exuq_state1 @
        [\<lparr>proba_par = post_param exuq_state1, score = 6, KL = 0, mean_loss = 6\<rparr>]"
    using a2 by (simp add: exuq_facts1(7))
  have b1: "is_bad_step exuq_state2 (Fin 20) (Fin 3) = (2 * 3 < 20 - (6 :: real))"
    using B exuq_facts2(2,3) by blast
  then have b2: "is_bad_step exuq_state2 (Fin 20) (Fin 3)" by simp
  have "if is_bad_step exuq_state2 (Fin (20 + temperature exuq_state2 * 0)) (Fin 3)
       then warned exuq_state3 = warned exuq_state2 @
              [ProbBadGrad (prev_score exuq_state2)
                 (Fin (20 + temperature exuq_state2 * 0)) (Fin 3)] \<and>
            hist_log exuq_state3 = butlast (hist_log exuq_state2) \<and>
            bin_log exuq_state3 = bin_log exuq_state2 @ [last (hist_log exuq_state2)]
       else warned exuq_state3 = warned exuq_state2 \<and>
            hist_log exuq_state3 = hist_log exuq_state2 @
              [\<lparr>proba_par = post_param exuq_state2,
                score = 20 + temperature exuq_state2 * 0, KL = 0, mean_loss = 20\<rparr>] \<and>
            bin_log exuq_state3 = bin_log exuq_state2"
    using B exuq_facts2(4,5) exuq_step3 by blast
  then have b3: "warned exuq_state3 = warned exuq_state2 @
        [ProbBadGrad (Fin 6) (Fin 20) (Fin 3)] \<and>
      hist_log exuq_state3 = butlast (hist_log exuq_state2) \<and>
      bin_log exuq_state3 = bin_log exuq_state2 @ [last (hist_log exuq_state2)]"
    using b2 by (simp add: exuq_facts2(2,6))
  show ?thesis
    using a0 a1 a2 a3 b1 b2 b3 exuq_facts1(1-6) exuq_facts2(1-5) exuq_run1 exuq_run2
      exuq_step2 exuq_step3
    by blast
qed

text \<open>
  The warning does not say which step was rejected: in a run of four steps whose second
  and fourth steps are rejected with the same scores, the two warnings are the same.
\<close>

theorem bad_step_warning_counterexample:
  "warnings_after ex_env ex_config4 1 = Some [] \<and>
   warnings_after ex_env ex_config4 2 = Some [ProbBadGrad (Fin 0) (Fin 10) (Fin 1)] \<and>
   warnings_after ex_env ex_config4 3 = Some [ProbBadGrad (Fin 0) (Fin 10) (Fin 1)] \<and>
   warnings_after ex_env ex_config4 4 =
     Some [ProbBadGrad (Fin 0) (Fin 10) (Fin 1), ProbBadGrad (Fin 0) (Fin 10) (Fin 1)]"
  by code_simp

text \<open>
  C3. Frozen coordinates. For a robust engine constructed with a list of trainable
  indices, collaborators that return gradients of the shape of the parameter, and prior
  and initial parameter of that shape: in every state reached by a run from the
  constructor, an index of the parameter that is not trainable is in \<open>index_no_train\<close>,
  the committed parameter has at that index the value it had at construction, and the
  momentum vector is zero there. This covers accepted steps (the raw increment is set to
  zero at the index before it is blended into the momentum) and rollbacks (the parameter
  restored is a record of the primary log or the initial parameter).
\<close>

theorem frozen_coordinates_robust:
  assumes sh: "shapes_ok E (length (c_post_param c))"
    and d: "proba_param_shape E = length (c_post_param c)"
    and pr: "length (c_prior_param c) = length (c_post_param c)"
    and tr: "c_index_train c = Some tr"
    and i: "i < length (c_prior_param c)" and fr: "int i \<notin> set tr"
    and run: "updates E n (GB_init E c) = Inr s"
  shows "i \<in> set (index_no_train s) \<and>
         length (post_param s) = length (c_post_param c) \<and>
         post_param s ! i = c_post_param c ! i \<and>
         v s ! i = 0"
proof -
  have inv: "frozen_inv (length (c_post_param c)) (c_post_param c) s"
    using frozen_inv_updates[OF sh d frozen_inv_init[OF d pr] run] .
  have "index_no_train s = no_train_of (length (c_prior_param c)) (c_index_train c)"
    using updates_frame[OF run] by (simp add: GB_init_fields)
  then have mem: "i \<in> set (index_no_train s)"
    using tr i fr by (simp add: no_train_of_Some)
  then show ?thesis
    using inv by (simp add: frozen_inv_def)
qed

theorem frozen_coordinates_robust_witness:
  "shapes_ok ex_env (length (c_post_param ex_config)) \<and>
   proba_param_shape ex_env = length (c_post_param ex_config) \<and>
   length (c_prior_param ex_config) = length (c_post_param ex_config) \<and>
   c_index_train ex_config = Some [0] \<and>
   1 < length (c_prior_param ex_config) \<and> int 1 \<notin> set [0] \<and>
   updates ex_env 3 (GB_init ex_env ex_config) = Inr ex_state3 \<and>
   1 \<in> set (index_no_train ex_state3) \<and>
   post_param ex_state3 ! 1 = c_post_param ex_config ! 1 \<and>
   v ex_state3 ! 1 = 0"
  using frozen_coordinates_robust[OF ex_shapes_ok ex_frozen_facts ex_run3]
    ex_shapes_ok ex_frozen_facts ex_run3
  by blast

text \<open>
  The vanilla engine computes the same \<open>index_no_train\<close> in its constructor, and its
  \<^verbatim>\<open>update\<close> never reads it: with trainable indices \<open>[0]\<close> the first step moves the
  parameter at index 1 from 0 to \<open>-2\<close>.
\<close>

theorem frozen_coordinates_vanilla_counterexample:
  "c_index_train ex_gd_config = Some [0] \<and>
   1 \<in> set (gd_index_no_train (GD_init ex_env ex_gd_config)) \<and>
   gd_update ex_env (GD_init ex_env ex_gd_config) = Inr ex_gd_state1 \<and>
   gd_post_param (GD_init ex_env ex_gd_config) ! 1 = 0 \<and>
   gd_post_param ex_gd_state1 ! 1 = - 2 \<and>
   gd_post_param ex_gd_state1 ! 1 \<noteq> gd_post_param (GD_init ex_env ex_gd_config) ! 1"
  by code_simp

text \<open>
  C4. The learning rate of the robust engine. Its constructor stores
  \<open>eta * (1 - momentum)\<close>, the vanilla constructor stores \<open>eta\<close> and the vanilla update
  never changes it. In every state of a run of the robust engine the learning rate is
  \<open>eta * (1 - momentum) * corr_eta ^ k\<close>, \<open>k\<close> the number of steps rejected so far (one
  warning each). So with momentum 0, in a state of a run in which no step was rejected,
  an accepted step moves the parameter by the masked increment
  \<open>- eta * (gradient + temperature * KL-gradient)\<close> for the configured \<open>eta\<close>, nothing of the
  old momentum vector being carried over: every coordinate that is not frozen moves by
  exactly that amount, as every coordinate does in a step of the vanilla engine,
  \<open>- eta * (grad_expct + temperature * grad_kl)\<close>. In any state with momentum 0 the same
  holds with the current learning rate in place of the configured one. The first steps of
  the two engines from the same configuration, with momentum 0, no frozen coordinate and a
  collaborator that returns the vanilla estimate, commit the same parameter.
\<close>

theorem momentum_zero_matches_vanilla:
  "eta (GB_init E c) = c_eta c * (1 - c_momentum c) \<and>
   gd_eta (GD_init E c') = c_eta c' \<and>
   (c_momentum c = 0 \<longrightarrow> c_eta c' = c_eta c \<longrightarrow> eta (GB_init E c) = gd_eta (GD_init E c')) \<and>
   (gd_update E r = Inr r' \<longrightarrow> gd_eta r' = gd_eta r) \<and>
   (updates E n (GB_init E c) = Inr t \<longrightarrow>
      momentum t = c_momentum c \<and>
      eta t = c_eta c * (1 - c_momentum c) * c_corr_eta c ^ length (warned t)) \<and>
   (c_momentum c = 0 \<longrightarrow> updates E n (GB_init E c) = Inr t \<longrightarrow> warned t = [] \<longrightarrow>
    get_score_grad E (with_batch E t) = (g1, m1, u1) \<longrightarrow>
    grad_kl_of E (prior_param t) (post_param t) (n_grad_kl t) = (gk1, kl1) \<longrightarrow>
    \<not> is_bad_step t (Fin (m1 + temperature t * kl1)) (Fin u1) \<longrightarrow>
    update E t = Inr t' \<longrightarrow>
    length g1 = length (post_param t) \<longrightarrow> length gk1 = length (post_param t) \<longrightarrow>
    length (v t) = length (post_param t) \<longrightarrow>
      v t' = set_zero (index_no_train t)
               (smult (- c_eta c) (vadd g1 (smult (temperature t) gk1))) \<and>
      post_param t' = vadd (post_param t) (v t') \<and>
      (\<forall>i<length (post_param t). i \<notin> set (index_no_train t) \<longrightarrow>
         post_param t' ! i =
           post_param t ! i - c_eta c * (g1 ! i + temperature t * gk1 ! i))) \<and>
   (momentum s = 0 \<longrightarrow>
    get_score_grad E (with_batch E s) = (g, m, u) \<longrightarrow>
    grad_kl_of E (prior_param s) (post_param s) (n_grad_kl s) = (gk, kl) \<longrightarrow>
    \<not> is_bad_step s (Fin (m + temperature s * kl)) (Fin u) \<longrightarrow>
    update E s = Inr s' \<longrightarrow>
    length g = length (post_param s) \<longrightarrow> length gk = length (post_param s) \<longrightarrow>
    length (v s) = length (post_param s) \<longrightarrow>
      v s' = set_zero (index_no_train s)
               (smult (- eta s) (vadd g (smult (temperature s) gk))) \<and>
      post_param s' = vadd (post_param s) (v s') \<and>
      (\<forall>i<length (post_param s). i \<notin> set (index_no_train s) \<longrightarrow>
         post_param s' ! i = post_param s ! i - eta s * (g ! i + temperature s * gk ! i))) \<and>
   (gd_update E r = Inr r' \<longrightarrow>
    grad_kl_of E (gd_prior_param r) (gd_post_param r) (gd_n_grad_kl r) = (gk', kl') \<longrightarrow>
    length (gd_grad_expct E r) = length (gd_post_param r) \<longrightarrow>
    length gk' = length (gd_post_param r) \<longrightarrow>
      (\<forall>i<length (gd_post_param r).
         gd_post_param r' ! i =
           gd_post_param r ! i -
           gd_eta r * (gd_grad_expct E r ! i + gd_temperature r * gk' ! i))) \<and>
   (c_momentum c = 0 \<longrightarrow> c_index_train c = None \<longrightarrow>
    c_eta c' = c_eta c \<longrightarrow> c_temperature c' = c_temperature c \<longrightarrow>
    c_post_param c' = c_post_param c \<longrightarrow> c_prior_param c' = c_prior_param c \<longrightarrow>
    c_n_grad_kl c' = c_n_grad_kl c \<longrightarrow>
    proba_param_shape E = length (c_post_param c) \<longrightarrow>
    get_score_grad E (with_batch E (GB_init E c)) = (gd_grad_expct E (GD_init E c'), m0, u0) \<longrightarrow>
    length (gd_grad_expct E (GD_init E c')) = length (c_post_param c) \<longrightarrow>
    grad_kl_of E (c_prior_param c) (c_post_param c) (c_n_grad_kl c) = (gk0, kl0) \<longrightarrow>
    length gk0 = length (c_post_param c) \<longrightarrow>
    update E (GB_init E c) = Inr s1 \<longrightarrow> gd_update E (GD_init E c') = Inr r1 \<longrightarrow>
      post_param s1 = gd_post_param r1)"
proof (intro conjI impI)
  show "eta (GB_init E c) = c_eta c * (1 - c_momentum c)"
    by (simp add: GB_init_fields)
  show "gd_eta (GD_init E c') = c_eta c'"
    by (simp add: GD_init_def Let_def)
  show "eta (GB_init E c) = gd_eta (GD_init E c')" if "c_momentum c = 0" "c_eta c' = c_eta c"
    using that by (simp add: GB_init_fields GD_init_def Let_def)
  show "gd_eta r' = gd_eta r" if "gd_update E r = Inr r'"
    using that by (rule gd_update_eta)
  show "momentum t = c_momentum c" if "updates E n (GB_init E c) = Inr t"
    using that by (rule reach_eta(2))
  show "eta t = c_eta c * (1 - c_momentum c) * c_corr_eta c ^ length (warned t)"
    if "updates E n (GB_init E c) = Inr t"
    using that by (rule reach_eta(1))
next
  assume mom: "c_momentum c = 0" and run: "updates E n (GB_init E c) = Inr t"
    and w: "warned t = []"
    and sg: "get_score_grad E (with_batch E t) = (g1, m1, u1)"
    and k: "grad_kl_of E (prior_param t) (post_param t) (n_grad_kl t) = (gk1, kl1)"
    and nb: "\<not> is_bad_step t (Fin (m1 + temperature t * kl1)) (Fin u1)"
    and u: "update E t = Inr t'"
    and lg: "length g1 = length (post_param t)" and lk: "length gk1 = length (post_param t)"
    and lv: "length (v t) = length (post_param t)"
  have e: "eta t = c_eta c" and m: "momentum t = 0"
    using reach_eta[OF run] mom w by simp_all
  note a = accepted_step_momentum_zero[OF m sg k nb u lg lk lv]
  show "v t' = set_zero (index_no_train t)
               (smult (- c_eta c) (vadd g1 (smult (temperature t) gk1)))"
    using a(1) e by simp
  show "post_param t' = vadd (post_param t) (v t')"
    by (rule a(2))
  show "\<forall>i<length (post_param t). i \<notin> set (index_no_train t) \<longrightarrow>
         post_param t' ! i =
           post_param t ! i - c_eta c * (g1 ! i + temperature t * gk1 ! i)"
    using a(3) e by simp
next
  assume mom: "momentum s = 0"
    and sg: "get_score_grad E (with_batch E s) = (g, m, u)"
    and k: "grad_kl_of E (prior_param s) (post_param s) (n_grad_kl s) = (gk, kl)"
    and nb: "\<not> is_bad_step s (Fin (m + temperature s * kl)) (Fin u)"
    and u: "update E s = Inr s'"
    and lg: "length g = length (post_param s)" and lk: "length gk = length (post_param s)"
    and lv: "length (v s) = length (post_param s)"
  note a = accepted_step_momentum_zero[OF mom sg k nb u lg lk lv]
  show "v s' = set_zero (index_no_train s)
               (smult (- eta s) (vadd g (smult (temperature s) gk)))"
    by (rule a(1))
  show "post_param s' = vadd (post_param s) (v s')"
    by (rule a(2))
  show "\<forall>i<length (post_param s). i \<notin> set (index_no_train s) \<longrightarrow>
         post_param s' ! i = post_param s ! i - eta s * (g ! i + temperature s * gk ! i)"
    by (rule a(3))
next
  assume u: "gd_update E r = Inr r'"
    and k: "grad_kl_of E (gd_prior_param r) (gd_post_param r) (gd_n_grad_kl r) = (gk', kl')"
    and lg: "length (gd_grad_expct E r) = length (gd_post_param r)"
    and lk: "length gk' = length (gd_post_param r)"
  have r': "gd_post_param r' = vadd (gd_post_param r)
      (smult (- gd_eta r) (vadd (gd_grad_expct E r) (smult (gd_temperature r) gk')))"
    using u unfolding gd_update_ok[OF gd_update_Inr[OF u] k] by auto
  show "\<forall>i<length (gd_post_param r).
         gd_post_param r' ! i =
           gd_post_param r ! i -
           gd_eta r * (gd_grad_expct E r ! i + gd_temperature r * gk' ! i)"
    using lg lk by (simp add: r' nth_vadd nth_smult length_vadd length_smult)
next
  assume mom: "c_momentum c = 0" and tr: "c_index_train c = None"
    and e: "c_eta c' = c_eta c" and t: "c_temperature c' = c_temperature c"
    and p: "c_post_param c' = c_post_param c" and pr: "c_prior_param c' = c_prior_param c"
    and n: "c_n_grad_kl c' = c_n_grad_kl c"
    and d: "proba_param_shape E = length (c_post_param c)"
    and sg: "get_score_grad E (with_batch E (GB_init E c)) =
        (gd_grad_expct E (GD_init E c'), m0, u0)"
    and lg: "length (gd_grad_expct E (GD_init E c')) = length (c_post_param c)"
    and k: "grad_kl_of E (c_prior_param c) (c_post_param c) (c_n_grad_kl c) = (gk0, kl0)"
    and lk: "length gk0 = length (c_post_param c)"
    and u: "update E (GB_init E c) = Inr s1" and gu: "gd_update E (GD_init E c') = Inr r1"
  let ?s = "GB_init E c" and ?r = "GD_init E c'"
  let ?raw = "smult (- c_eta c) (vadd (gd_grad_expct E ?r) (smult (c_temperature c) gk0))"
  have lraw: "length ?raw = length (c_post_param c)"
    using lg lk by (simp add: length_smult length_vadd)
  have k1: "grad_kl_of E (prior_param ?s) (post_param ?s) (n_grad_kl ?s) = (gk0, kl0)"
    using k by (simp add: GB_init_def Let_def split_beta)
  have nb: "\<not> is_bad_step ?s (Fin (m0 + temperature ?s * kl0)) (Fin u0)"
    by (rule not_bad_PInf) (simp add: GB_init_fields)
  note f = update_good_fields[OF sg k1 nb u]
  have "v s1 = vadd ?raw (smult 0 (zeros (length (c_post_param c))))"
    using f(7) mom tr d by (simp add: GB_init_fields no_train_of_def set_zero_Nil)
  then have v1: "v s1 = ?raw"
    using lraw by (simp add: vadd_smult_zero length_zeros)
  have s1: "post_param s1 = vadd (c_post_param c) ?raw"
    using f(8) v1 by (simp add: GB_init_fields)
  have k2: "grad_kl_of E (gd_prior_param ?r) (gd_post_param ?r) (gd_n_grad_kl ?r) = (gk0, kl0)"
    using k p pr n by (simp add: GD_init_def Let_def)
  have "gd_post_param r1 = vadd (gd_post_param ?r)
      (smult (- gd_eta ?r) (vadd (gd_grad_expct E ?r) (smult (gd_temperature ?r) gk0)))"
    using gu unfolding gd_update_ok[OF gd_update_Inr[OF gu] k2] by auto
  then have "gd_post_param r1 = vadd (c_post_param c) ?raw"
    using e t p by (simp add: GD_init_def Let_def)
  then show "post_param s1 = gd_post_param r1" using s1 by simp
qed

theorem momentum_zero_matches_vanilla_witness:
  "c_momentum ex_config0 = 0 \<and> c_index_train ex_config0 = None \<and>
   c_eta ex_gd_config = c_eta ex_config0 \<and>
   momentum (GB_init ex_env0 ex_config0) = 0 \<and>
   \<not> is_bad_step (GB_init ex_env0 ex_config0)
       (Fin (0 + temperature (GB_init ex_env0 ex_config0) * 0)) (Fin 1) \<and>
   update ex_env0 (GB_init ex_env0 ex_config0) = Inr ex_state0_1 \<and>
   gd_update ex_env0 (GD_init ex_env0 ex_gd_config) = Inr ex_gd_state1 \<and>
   get_score_grad ex_env0 (with_batch ex_env0 (GB_init ex_env0 ex_config0)) =
     (gd_grad_expct ex_env0 (GD_init ex_env0 ex_gd_config), 0, 1) \<and>
   eta (GB_init ex_env0 ex_config0) = gd_eta (GD_init ex_env0 ex_gd_config) \<and>
   gd_eta ex_gd_state1 = gd_eta (GD_init ex_env0 ex_gd_config) \<and>
   post_param ex_state0_1 =
     vadd (post_param (GB_init ex_env0 ex_config0)) (v ex_state0_1) \<and>
   v ex_state0_1 =
     set_zero (index_no_train (GB_init ex_env0 ex_config0))
       (smult (- eta (GB_init ex_env0 ex_config0))
          (vadd [0, 0] (smult (temperature (GB_init ex_env0 ex_config0)) [1, 2]))) \<and>
   post_param ex_state0_1 = gd_post_param ex_gd_state1 \<and>
   c_momentum ex_config = 0 \<and>
   updates ex_env_uq 1 (GB_init ex_env_uq ex_config) = Inr exuq_state1 \<and>
   warned exuq_state1 = [] \<and>
   get_score_grad ex_env_uq (with_batch ex_env_uq exuq_state1) = ([1, 1], 6, 3) \<and>
   grad_kl_of ex_env_uq (prior_param exuq_state1) (post_param exuq_state1)
     (n_grad_kl exuq_state1) = ([1, 2], 0) \<and>
   \<not> is_bad_step exuq_state1 (Fin (6 + temperature exuq_state1 * 0)) (Fin 3) \<and>
   update ex_env_uq exuq_state1 = Inr exuq_state2 \<and>
   length [1, 1 :: real] = length (post_param exuq_state1) \<and>
   length [1, 2 :: real] = length (post_param exuq_state1) \<and>
   length (v exuq_state1) = length (post_param exuq_state1) \<and>
   v exuq_state2 =
     set_zero (index_no_train exuq_state1)
       (smult (- c_eta ex_config) (vadd [1, 1] (smult (temperature exuq_state1) [1, 2]))) \<and>
   post_param exuq_state2 = vadd (post_param exuq_state1) (v exuq_state2) \<and>
   post_param exuq_state2 ! 0 =
     post_param exuq_state1 ! 0 -
     c_eta ex_config * ([1, 1] ! 0 + temperature exuq_state1 * [1, 2] ! 0) \<and>
   post_param exuq_state1 ! 0 = - 2 \<and> post_param exuq_state2 ! 0 = - 4 \<and>
   updates ex_env_uq 3 (GB_init ex_env_uq ex_config) = Inr exuq_state3 \<and>
   length (warned exuq_state3) = 1 \<and>
   eta exuq_state3 =
     c_eta ex_config * (1 - c_momentum ex_config) *
     c_corr_eta ex_config ^ length (warned exuq_state3) \<and>
   eta exuq_state3 = 1 / 2"
proof -
  note T = momentum_zero_matches_vanilla[where E = ex_env0 and c = ex_config0
      and c' = ex_gd_config and s = "GB_init ex_env0 ex_config0" and g = "[0, 0]" and m = 0
      and u = 1 and gk = "[1, 2]" and kl = 0 and s' = ex_state0_1
      and r = "GD_init ex_env0 ex_gd_config" and r' = ex_gd_state1 and gk' = "[1, 2]"
      and kl' = 0 and ?m0.0 = 0 and ?u0.0 = 1 and ?gk0.0 = "[1, 2]" and ?kl0.0 = 0
      and ?s1.0 = ex_state0_1 and ?r1.0 = ex_gd_state1]
  note U = momentum_zero_matches_vanilla[where E = ex_env_uq and c = ex_config and n = 1
      and t = exuq_state1 and ?g1.0 = "[1, 1]" and ?m1.0 = 6 and ?u1.0 = 3
      and ?gk1.0 = "[1, 2]" and ?kl1.0 = 0 and t' = exuq_state2]
  note V = momentum_zero_matches_vanilla[where E = ex_env_uq and c = ex_config and n = 3
      and t = exuq_state3]
  note T3 = T[THEN conjunct2, THEN conjunct2, THEN conjunct1, rule_format]
  note T4 = T[THEN conjunct2, THEN conjunct2, THEN conjunct2, THEN conjunct1, rule_format]
  note V5 = V[THEN conjunct2, THEN conjunct2, THEN conjunct2, THEN conjunct2,
      THEN conjunct1, rule_format]
  note U6 = U[THEN conjunct2, THEN conjunct2, THEN conjunct2, THEN conjunct2,
      THEN conjunct2, THEN conjunct1, rule_format]
  note T7 = T[THEN conjunct2, THEN conjunct2, THEN conjunct2, THEN conjunct2,
      THEN conjunct2, THEN conjunct2, THEN conjunct1, rule_format]
  note T9 = T[THEN conjunct2, THEN conjunct2, THEN conjunct2, THEN conjunct2,
      THEN conjunct2, THEN conjunct2, THEN conjunct2, THEN conjunct2, rule_format]
  have a: "eta (GB_init ex_env0 ex_config0) = gd_eta (GD_init ex_env0 ex_gd_config)"
    by (rule T3[OF ex0_same(1) ex0_same(3)])
  have a': "gd_eta ex_gd_state1 = gd_eta (GD_init ex_env0 ex_gd_config)"
    by (rule T4[OF ex_gd_step1_0])
  note b = T7[OF ex0_mom ex0_sg ex0_kl ex0_not_bad ex_step0_1 ex0_lengths]
  have b1: "v ex_state0_1 =
     set_zero (index_no_train (GB_init ex_env0 ex_config0))
       (smult (- eta (GB_init ex_env0 ex_config0))
          (vadd [0, 0] (smult (temperature (GB_init ex_env0 ex_config0)) [1, 2])))"
    by (rule b[THEN conjunct1])
  have b2: "post_param ex_state0_1 =
       vadd (post_param (GB_init ex_env0 ex_config0)) (v ex_state0_1)"
    by (rule b[THEN conjunct2, THEN conjunct1])
  have c: "post_param ex_state0_1 = gd_post_param ex_gd_state1"
    by (rule T9[OF ex0_same ex0_sg_same ex0_lengths_c ex_step0_1 ex_gd_step1_0])
  note d = U6[OF exuq_c4_facts(1) exuq_run1 exuq_c4_facts(2) exuq_facts1(5,6)
      exuq_c4_facts(3) exuq_step2 exuq_c4_facts(4-6)]
  have d1: "v exuq_state2 =
       set_zero (index_no_train exuq_state1)
         (smult (- c_eta ex_config) (vadd [1, 1] (smult (temperature exuq_state1) [1, 2])))"
    by (rule d[THEN conjunct1])
  have d2: "post_param exuq_state2 = vadd (post_param exuq_state1) (v exuq_state2)"
    by (rule d[THEN conjunct2, THEN conjunct1])
  have d3: "post_param exuq_state2 ! 0 =
     post_param exuq_state1 ! 0 -
     c_eta ex_config * ([1, 1] ! 0 + temperature exuq_state1 * [1, 2] ! 0)"
    by (rule d[THEN conjunct2, THEN conjunct2, rule_format, OF exuq_c4_values(1,2)])
  have e: "eta exuq_state3 =
     c_eta ex_config * (1 - c_momentum ex_config) *
     c_corr_eta ex_config ^ length (warned exuq_state3)"
    by (rule V5[OF exuq_run3, THEN conjunct2])
  note F = a a' b1 b2 c d1 d2 d3 e ex0_same(1,2,3) ex0_mom ex0_not_bad ex_step0_1
    ex_gd_step1_0 ex0_sg_same exuq_c4_facts exuq_c4_values(5-8) exuq_run1 exuq_run3
    exuq_facts1(5,6) exuq_step2
  show ?thesis
    by (intro conjI) (rule F)+
qed

text \<open>
  After a rejected step the step size is no longer the one of the vanilla engine: in the
  run of the first configuration, momentum 0 and \<open>eta = 1\<close>, the second step is rejected
  and the accepted third step moves coordinate 0 by \<open>-1\<close>, where
  \<open>- eta * (gradient + temperature * KL-gradient)\<close> for the configured \<open>eta\<close> is \<open>-2\<close>.
\<close>

theorem momentum_zero_after_rollback_counterexample:
  "c_momentum ex_config = 0 \<and> c_eta ex_config = 1 \<and>
   updates ex_env 2 (GB_init ex_env ex_config) = Inr ex_state2 \<and>
   warned ex_state2 = [ProbBadGrad (Fin 0) (Fin 10) (Fin 1)] \<and>
   momentum ex_state2 = 0 \<and> eta ex_state2 = 1 / 2 \<and>
   get_score_grad ex_env (with_batch ex_env ex_state2) = ([1, 1], 0, 1) \<and>
   grad_kl_of ex_env (prior_param ex_state2) (post_param ex_state2) (n_grad_kl ex_state2) =
     ([1, 2], 0) \<and>
   \<not> is_bad_step ex_state2 (Fin (0 + temperature ex_state2 * 0)) (Fin 1) \<and>
   update ex_env ex_state2 = Inr ex_state3 \<and>
   0 \<notin> set (index_no_train ex_state2) \<and>
   post_param ex_state2 ! 0 = 0 \<and>
   post_param ex_state3 ! 0 = - 1 \<and>
   post_param ex_state2 ! 0 -
     c_eta ex_config * ([1, 1] ! 0 + temperature ex_state2 * [1, 2] ! 0) = - 2"
  by code_simp

text \<open>
  C5. One step of the vanilla engine. Within the schedule, with room in the accumulator
  and a batch that is not empty, update returns. It has drawn a batch of the scheduled size
  \<open>n\<close> and stored it with its loss values; the mean loss is the sum of the loss values of
  the batch divided by \<open>n\<close>; the estimate \<open>grad_expct\<close> is, coordinate by coordinate, the
  sum over the batch of (loss value minus mean loss) times the derivative of the
  log-density at the sample, divided by \<open>n\<close>; the record appended to the log carries the
  parameter before the update, the score (mean loss plus temperature times KL), the KL and
  the mean loss; the new parameter is the old one minus \<open>eta\<close> times (\<open>grad_expct\<close> plus
  temperature times the KL-gradient), committed without any test; and the step counter has
  grown by one.
\<close>

theorem vanilla_step:
  assumes kl: "grad_kl_of E (gd_prior_param s) (gd_post_param s) (gd_n_grad_kl s) = (grad_kl, kl)"
    and sh: "\<forall>x. length (log_dens_der E (gd_post_param s) x) = length (gd_post_param s)"
    and shk: "length grad_kl = length (gd_post_param s)"
    and c: "gd_count s < length (gd_per_step s)"
    and pos: "0 < gd_per_step s ! gd_count s"
    and cap: "val_n_filled (gd_accu s) + gd_per_step s ! gd_count s \<le> val_n_tot (gd_accu s)"
  shows "\<exists>s'. gd_update E s = Inr s' \<and>
     length (gd_batch E s) = gd_per_step s ! gd_count s \<and>
     val_gens (gd_accu s') =
       val_gens (gd_accu s) @ [(gd_batch E s, map (loss E) (gd_batch E s))] \<and>
     mean (map (loss E) (gd_batch E s)) =
       (\<Sum>i<gd_per_step s ! gd_count s. loss E (gd_batch E s ! i))
       / real (gd_per_step s ! gd_count s) \<and>
     (\<forall>j<length (gd_post_param s).
        gd_grad_expct E s ! j =
          (\<Sum>i<gd_per_step s ! gd_count s.
             (loss E (gd_batch E s ! i) -
              (\<Sum>i<gd_per_step s ! gd_count s. loss E (gd_batch E s ! i))
              / real (gd_per_step s ! gd_count s)) *
             (log_dens_der E (gd_post_param s) (gd_batch E s ! i) ! j))
          / real (gd_per_step s ! gd_count s)) \<and>
     gd_hist_log s' = gd_hist_log s @
       [\<lparr>proba_par = gd_post_param s,
         score = (\<Sum>i<gd_per_step s ! gd_count s. loss E (gd_batch E s ! i))
                 / real (gd_per_step s ! gd_count s) + gd_temperature s * kl,
         KL = kl,
         mean_loss = (\<Sum>i<gd_per_step s ! gd_count s. loss E (gd_batch E s ! i))
                     / real (gd_per_step s ! gd_count s)\<rparr>] \<and>
     length (gd_post_param s') = length (gd_post_param s) \<and>
     (\<forall>j<length (gd_post_param s).
        gd_post_param s' ! j =
          gd_post_param s ! j -
          gd_eta s * (gd_grad_expct E s ! j + gd_temperature s * grad_kl ! j)) \<and>
     gd_post s' = proba_map (gd_post_param s') \<and>
     gd_count s' = gd_count s + 1"
proof -
  note g = gd_grad_expct_nth[OF sh] gd_grad_expct_length[OF sh]
  have m: "mean (map (loss E) (gd_batch E s)) =
      (\<Sum>i<gd_per_step s ! gd_count s. loss E (gd_batch E s ! i))
      / real (gd_per_step s ! gd_count s)"
    using mean_sum[of "loss E" "gd_batch E s"] by (simp add: length_gd_batch)
  let ?step = "smult (- gd_eta s) (vadd (gd_grad_expct E s) (smult (gd_temperature s) grad_kl))"
  have ls: "length ?step = length (gd_post_param s)"
    using g(2) shk by (simp add: length_smult length_vadd)
  have ns: "?step ! j = - gd_eta s * (gd_grad_expct E s ! j + gd_temperature s * grad_kl ! j)"
    if "j < length (gd_post_param s)" for j
    using that g(2) shk by (simp add: nth_smult nth_vadd length_smult length_vadd)
  have np: "vadd (gd_post_param s) ?step ! j =
      gd_post_param s ! j -
      gd_eta s * (gd_grad_expct E s ! j + gd_temperature s * grad_kl ! j)"
    if "j < length (gd_post_param s)" for j
    using that ls ns[OF that] by (simp add: nth_vadd)
  show ?thesis
    unfolding gd_update_ok[OF c cap kl] m[symmetric]
    using g(1) np ls m by (simp add: length_gd_batch length_vadd)
qed

theorem vanilla_step_witness:
  "grad_kl_of ex_env_gd (gd_prior_param (GD_init ex_env_gd ex_gd_config2))
     (gd_post_param (GD_init ex_env_gd ex_gd_config2))
     (gd_n_grad_kl (GD_init ex_env_gd ex_gd_config2)) = ([1, 2], 0) \<and>
   (\<forall>x. length (log_dens_der ex_env_gd (gd_post_param (GD_init ex_env_gd ex_gd_config2)) x) =
       length (gd_post_param (GD_init ex_env_gd ex_gd_config2))) \<and>
   length [1, 2 :: real] = length (gd_post_param (GD_init ex_env_gd ex_gd_config2)) \<and>
   gd_count (GD_init ex_env_gd ex_gd_config2) <
     length (gd_per_step (GD_init ex_env_gd ex_gd_config2)) \<and>
   0 < gd_per_step (GD_init ex_env_gd ex_gd_config2) ! gd_count (GD_init ex_env_gd ex_gd_config2) \<and>
   val_n_filled (gd_accu (GD_init ex_env_gd ex_gd_config2)) +
     gd_per_step (GD_init ex_env_gd ex_gd_config2) ! gd_count (GD_init ex_env_gd ex_gd_config2)
     \<le> val_n_tot (gd_accu (GD_init ex_env_gd ex_gd_config2)) \<and>
   gd_update ex_env_gd (GD_init ex_env_gd ex_gd_config2) = Inr ex_gd2_state1 \<and>
   gd_batch ex_env_gd (GD_init ex_env_gd ex_gd_config2) = [[0, 0], [0, 1]] \<and>
   map (loss ex_env_gd) (gd_batch ex_env_gd (GD_init ex_env_gd ex_gd_config2)) = [0, 1] \<and>
   map (log_dens_der ex_env_gd (gd_post_param (GD_init ex_env_gd ex_gd_config2)))
     (gd_batch ex_env_gd (GD_init ex_env_gd ex_gd_config2)) = [[0, 1], [1, 1]] \<and>
   mean (map (loss ex_env_gd) (gd_batch ex_env_gd (GD_init ex_env_gd ex_gd_config2))) = 1 / 2 \<and>
   gd_grad_expct ex_env_gd (GD_init ex_env_gd ex_gd_config2) = [1 / 4, 0] \<and>
   gd_grad_expct ex_env_gd (GD_init ex_env_gd ex_gd_config2) ! 0 =
     ((0 - 1 / 2) * 0 + (1 - 1 / 2) * 1) / 2 \<and>
   gd_hist_log ex_gd2_state1 =
     [\<lparr>proba_par = [0, 0], score = 1 / 2, KL = 0, mean_loss = 1 / 2\<rparr>] \<and>
   gd_post_param ex_gd2_state1 = [- (5 / 4), - 2] \<and>
   gd_post_param ex_gd2_state1 ! 0 = 0 - 1 * (1 / 4 + 1 * 1) \<and>
   gd_post_param ex_gd2_state1 ! 1 = 0 - 1 * (0 + 1 * 2) \<and>
   gd_count ex_gd2_state1 = 1"
proof -
  note h = ex_gd2_kl ex_gd2_shape ex_gd2_facts
  from vanilla_step[OF h] ex_gd2_step1
  have T: "mean (map (loss ex_env_gd) (gd_batch ex_env_gd (GD_init ex_env_gd ex_gd_config2))) =
       (\<Sum>i<gd_per_step (GD_init ex_env_gd ex_gd_config2) !
              gd_count (GD_init ex_env_gd ex_gd_config2).
          loss ex_env_gd (gd_batch ex_env_gd (GD_init ex_env_gd ex_gd_config2) ! i))
       / real (gd_per_step (GD_init ex_env_gd ex_gd_config2) !
               gd_count (GD_init ex_env_gd ex_gd_config2))"
    and G: "\<forall>j<length (gd_post_param (GD_init ex_env_gd ex_gd_config2)).
        gd_grad_expct ex_env_gd (GD_init ex_env_gd ex_gd_config2) ! j =
          (\<Sum>i<gd_per_step (GD_init ex_env_gd ex_gd_config2) !
                 gd_count (GD_init ex_env_gd ex_gd_config2).
             (loss ex_env_gd (gd_batch ex_env_gd (GD_init ex_env_gd ex_gd_config2) ! i) -
              (\<Sum>i<gd_per_step (GD_init ex_env_gd ex_gd_config2) !
                     gd_count (GD_init ex_env_gd ex_gd_config2).
                 loss ex_env_gd (gd_batch ex_env_gd (GD_init ex_env_gd ex_gd_config2) ! i))
              / real (gd_per_step (GD_init ex_env_gd ex_gd_config2) !
                      gd_count (GD_init ex_env_gd ex_gd_config2))) *
             (log_dens_der ex_env_gd (gd_post_param (GD_init ex_env_gd ex_gd_config2))
                (gd_batch ex_env_gd (GD_init ex_env_gd ex_gd_config2) ! i) ! j))
          / real (gd_per_step (GD_init ex_env_gd ex_gd_config2) !
                  gd_count (GD_init ex_env_gd ex_gd_config2))"
    and P: "\<forall>j<length (gd_post_param (GD_init ex_env_gd ex_gd_config2)).
        gd_post_param ex_gd2_state1 ! j =
          gd_post_param (GD_init ex_env_gd ex_gd_config2) ! j -
          gd_eta (GD_init ex_env_gd ex_gd_config2) *
            (gd_grad_expct ex_env_gd (GD_init ex_env_gd ex_gd_config2) ! j +
             gd_temperature (GD_init ex_env_gd ex_gd_config2) * [1, 2] ! j)"
    by auto
  have m: "mean (map (loss ex_env_gd) (gd_batch ex_env_gd (GD_init ex_env_gd ex_gd_config2))) =
      1 / 2"
    unfolding T by (simp add: ex_gd2_values lessThan_Suc numeral_2_eq_2)
  have p0: "gd_post_param ex_gd2_state1 ! 0 = 0 - 1 * (1 / 4 + 1 * 1)"
    using P[rule_format, of 0] by (simp add: ex_gd2_values)
  have p1: "gd_post_param ex_gd2_state1 ! 1 = 0 - 1 * (0 + 1 * 2)"
    using P[rule_format, of 1] by (simp add: ex_gd2_values)
  have g0: "gd_grad_expct ex_env_gd (GD_init ex_env_gd ex_gd_config2) ! 0 =
     ((0 - 1 / 2) * 0 + (1 - 1 / 2) * 1) / 2"
    unfolding G[rule_format, of 0, simplified ex_gd2_values, simplified]
    by (simp add: ex_gd2_values lessThan_Suc numeral_2_eq_2)
  show ?thesis
    using h ex_gd2_step1 ex_gd2_values m p0 p1 g0 by simp
qed

text \<open>
  C6. Underflow of the primary log. \<^verbatim>\<open>update\<close> and \<^verbatim>\<open>msg_end_step\<close> catch the
  \<^verbatim>\<open>IndexError\<close> of an empty primary log: the rollback falls back to the initial
  parameter and the message reports that no score was assessed. \<^verbatim>\<open>process_result\<close>
  reads \<^verbatim>\<open>VI_scores(1)[0]\<close> with no handler, so on an empty primary log the
  \<^verbatim>\<open>IndexError\<close> reaches the caller: for a solver just constructed, whatever the
  configuration, and at the end of the run of two steps whose first step is accepted and
  whose second is rejected, where \<^verbatim>\<open>update\<close> has recovered and \<^verbatim>\<open>msg_end_step\<close>
  reports no score.
\<close>

theorem process_result_underflow:
  "process_result (GB_init E c) = Inl IndexError \<and>
   updates ex_env 2 (GB_init ex_env ex_config) = Inr ex_state2 \<and>
   hist_log ex_state2 = [] \<and>
   post_param ex_state2 = c_post_param ex_config \<and>
   prev_score ex_state2 = PInf \<and>
   process_result ex_state2 = Inl IndexError \<and>
   msg_end_step ex_state2 =
     Inr (ex_state2\<lparr>printed := printed ex_state2 @ [No_score_assessed 2]\<rparr>)"
proof (intro conjI)
  show "process_result (GB_init E c) = Inl IndexError"
    by (simp add: process_result_empty GB_init_fields)
  show "updates ex_env 2 (GB_init ex_env ex_config) = Inr ex_state2"
    by (rule ex_run2)
  show "hist_log ex_state2 = []"
    by code_simp
  show "post_param ex_state2 = c_post_param ex_config"
    by code_simp
  show "prev_score ex_state2 = PInf"
    by code_simp
  show "process_result ex_state2 = Inl IndexError"
    by code_simp
  show "msg_end_step ex_state2 =
     Inr (ex_state2\<lparr>printed := printed ex_state2 @ [No_score_assessed 2]\<rparr>)"
    by code_simp
qed

text \<open>
  C7. The result record. When the primary log is not empty, \<^verbatim>\<open>process_result\<close> returns
  the record of: the current parameter as optimised parameter, the converged flag, the
  score of the last record of the primary log, the parameters and the scores of all the
  records of the primary log in order, the current parameter again as final parameter, the
  primary log, the bin log, and the accumulator with densities. The stable accumulator is
  not passed to the record: a solver that differs in its stable accumulator only gives
  the same result.
\<close>

theorem result_record:
  assumes "hist_log s \<noteq> []"
  shows "process_result s =
     Inr \<lparr>opti_param = post_param s, res_converged = converged s,
          opti_score = score (last (hist_log s)),
          hist_param = map proba_par (hist_log s),
          hist_score = map score (hist_log s),
          end_param = post_param s, log_vi = hist_log s, bin_log_vi = bin_log s,
          sample_val = accu s\<rparr> \<and>
     process_result (s\<lparr>stable_accu := a\<rparr>) = process_result s"
  using process_result_nonempty[OF assms] process_result_stable by simp

theorem result_record_witness:
  "hist_log ex_state3 \<noteq> [] \<and>
   process_result ex_state3 =
     Inr \<lparr>opti_param = post_param ex_state3, res_converged = converged ex_state3,
          opti_score = score (last (hist_log ex_state3)),
          hist_param = map proba_par (hist_log ex_state3),
          hist_score = map score (hist_log ex_state3),
          end_param = post_param ex_state3, log_vi = hist_log ex_state3,
          bin_log_vi = bin_log ex_state3, sample_val = accu ex_state3\<rparr> \<and>
   process_result (ex_state3\<lparr>stable_accu := new_val 0\<rparr>) = process_result ex_state3"
  using result_record[OF ex3_hist, of "new_val 0"] ex3_hist by blast

text \<open>
  Two runs of three steps that differ in the sample drawn at the rejected second step
  end with the same result record and with different stable accumulators: the record
  does not hold the stable accumulator.
\<close>

theorem result_record_counterexample:
  "updates ex_env 3 (GB_init ex_env ex_config) = Inr ex_state3 \<and>
   updates ex_env_alt 3 (GB_init ex_env_alt ex_config) = Inr ex_state3_alt \<and>
   process_result ex_state3 = process_result ex_state3_alt \<and>
   stable_accu ex_state3 \<noteq> stable_accu ex_state3_alt"
  by code_simp
text \<open>
  C8. The capacity of the accumulator with densities. The constructor makes it a new
  accumulator of capacity \<open>sum(per_step)\<close> when there are no previous evaluations, and
  otherwise the previous accumulator with its capacity raised by \<open>sum(per_step)\<close> and its
  generations kept. So a run of at most as many steps as are scheduled never fails, and
  both accumulators stay within their capacities (for previous evaluations that respect
  their own capacity). An add beyond the capacity is the error FullMemory, and update
  passes it on to its caller.
\<close>

theorem capacity_fits_schedule:
  "accu (GB_init E c) =
     (case c_prev_eval c of
        None \<Rightarrow> new_dens (sum_list (c_per_step c))
      | Some a \<Rightarrow> extend_memory (sum_list (c_per_step c)) a) \<and>
   dens_n_tot (new_dens (sum_list (c_per_step c))) = sum_list (c_per_step c) \<and>
   dens_n_tot (extend_memory (sum_list (c_per_step c)) a) =
     dens_n_tot a + sum_list (c_per_step c) \<and>
   dens_gens (extend_memory (sum_list (c_per_step c)) a) = dens_gens a \<and>
   (prev_eval_ok c \<longrightarrow> n \<le> length (c_per_step c) \<longrightarrow>
      (\<exists>s. updates E n (GB_init E c) = Inr s \<and>
           dens_n_filled (accu s) \<le> dens_n_tot (accu s) \<and>
           val_n_filled (stable_accu s) \<le> val_n_tot (stable_accu s))) \<and>
   (dens_n_tot b < dens_n_filled b + length smp \<longrightarrow>
      dens_add smp l_dens vals b = Inl FullMemory) \<and>
   (gen_sample E t = Inl FullMemory \<longrightarrow> update E t = Inl FullMemory)"
proof (intro conjI impI)
  show "accu (GB_init E c) =
     (case c_prev_eval c of
        None \<Rightarrow> new_dens (sum_list (c_per_step c))
      | Some a \<Rightarrow> extend_memory (sum_list (c_per_step c)) a)"
    by (simp add: GB_init_fields set_up_accu_def split: option.splits)
  show "dens_n_tot (new_dens (sum_list (c_per_step c))) = sum_list (c_per_step c)"
    by (simp add: new_dens_def)
  show "dens_n_tot (extend_memory (sum_list (c_per_step c)) a) =
     dens_n_tot a + sum_list (c_per_step c)"
    by (simp add: extend_memory_def)
  show "dens_gens (extend_memory (sum_list (c_per_step c)) a) = dens_gens a"
    by (simp add: extend_memory_def)
  show "\<exists>s. updates E n (GB_init E c) = Inr s \<and>
           dens_n_filled (accu s) \<le> dens_n_tot (accu s) \<and>
           val_n_filled (stable_accu s) \<le> val_n_tot (stable_accu s)"
    if ok: "prev_eval_ok c" and n: "n \<le> length (c_per_step c)"
  proof -
    have "count (GB_init E c) + n \<le> length (per_step (GB_init E c))"
      using n by (simp add: GB_init_fields)
    from updates_total[OF run_inv_init[OF ok] this]
    obtain s where "updates E n (GB_init E c) = Inr s" "run_inv s" by blast
    then show ?thesis by (intro exI[of _ s]) (simp add: run_inv_def)
  qed
  show "dens_add smp l_dens vals b = Inl FullMemory"
    if "dens_n_tot b < dens_n_filled b + length smp"
    using that by (simp add: dens_add_def)
  show "update E t = Inl FullMemory" if "gen_sample E t = Inl FullMemory"
    using that by (rule update_gen_sample_Inl)
qed

theorem capacity_fits_schedule_witness:
  "prev_eval_ok ex_config \<and> 3 \<le> length (c_per_step ex_config) \<and>
   (\<exists>s. updates ex_env 3 (GB_init ex_env ex_config) = Inr s \<and>
        dens_n_filled (accu s) \<le> dens_n_tot (accu s) \<and>
        val_n_filled (stable_accu s) \<le> val_n_tot (stable_accu s)) \<and>
   dens_n_tot (new_dens 0) < dens_n_filled (new_dens 0) + length [[0::real]] \<and>
   dens_add [[0]] [0] [0] (new_dens 0) = Inl FullMemory \<and>
   gen_sample ex_env ((GB_init ex_env ex_config)\<lparr>accu := new_dens 0\<rparr>) = Inl FullMemory \<and>
   update ex_env ((GB_init ex_env ex_config)\<lparr>accu := new_dens 0\<rparr>) = Inl FullMemory"
proof -
  note T = capacity_fits_schedule[of ex_env ex_config "new_dens 0" 3 "new_dens 0" "[[0]]"
      "[0]" "[0]" "(GB_init ex_env ex_config)\<lparr>accu := new_dens 0\<rparr>"]
  have a: "\<exists>s. updates ex_env 3 (GB_init ex_env ex_config) = Inr s \<and>
        dens_n_filled (accu s) \<le> dens_n_tot (accu s) \<and>
        val_n_filled (stable_accu s) \<le> val_n_tot (stable_accu s)"
    using T ex_prev_eval_ok ex_sched3 by blast
  have b: "dens_add [[0]] [0] [0] (new_dens 0) = Inl FullMemory"
    using T ex_full_add by blast
  have c: "update ex_env ((GB_init ex_env ex_config)\<lparr>accu := new_dens 0\<rparr>) = Inl FullMemory"
    using T ex_full by blast
  show ?thesis
    using a b c ex_prev_eval_ok ex_sched3 ex_full ex_full_add by blast
qed

text \<open>
  C9. The first call of update is never classified as a bad step. The constructor sets
  \<open>prev_score\<close> to \<open>+\<infinity>\<close>; with that value the test of a bad step is false for every
  score and every uncertainty; a call of update from such a state is accepted (no warning,
  nothing moved to the bin log, one record appended for the parameter it started from);
  whenever a call of update leaves the primary log empty, it has reset \<open>prev_score\<close> to
  \<open>+\<infinity>\<close>, so the next step is accepted too; and the first call of a run with at least one
  scheduled step returns, accepted.
\<close>

theorem first_step_never_bad:
  "prev_score (GB_init E c) = PInf \<and>
   (prev_score s = PInf \<longrightarrow> \<not> is_bad_step s score_VI score_UQ) \<and>
   (prev_score s = PInf \<longrightarrow> update E s = Inr s' \<longrightarrow>
      warned s' = warned s \<and> bin_log s' = bin_log s \<and> hist_log s' \<noteq> [] \<and>
      butlast (hist_log s') = hist_log s \<and>
      proba_par (last (hist_log s')) = post_param s \<and>
      prev_score s' = Fin (score (last (hist_log s')))) \<and>
   (update E t = Inr t' \<longrightarrow> hist_log t' = [] \<longrightarrow> prev_score t' = PInf) \<and>
   (prev_eval_ok c \<longrightarrow> c_per_step c \<noteq> [] \<longrightarrow>
      (\<exists>s1. update E (GB_init E c) = Inr s1 \<and> warned s1 = [] \<and> bin_log s1 = [] \<and>
            length (hist_log s1) = 1))"
proof (intro conjI impI)
  show "prev_score (GB_init E c) = PInf"
    by (simp add: GB_init_fields)
  show "\<not> is_bad_step s score_VI score_UQ" if "prev_score s = PInf"
    using that by (rule not_bad_PInf)
  have acc: "warned s' = warned s \<and> bin_log s' = bin_log s \<and> hist_log s' \<noteq> [] \<and>
      butlast (hist_log s') = hist_log s \<and>
      proba_par (last (hist_log s')) = post_param s \<and>
      prev_score s' = Fin (score (last (hist_log s')))"
    if p: "prev_score s = PInf" and u: "update E s = Inr s'" for s s'
    using u
  proof (cases rule: update_InrE)
    case (bad g m u gk kl)
    then show ?thesis using not_bad_PInf[OF p] by simp
  next
    case (good g m u gk kl)
    then show ?thesis by (simp add: accept_fields with_batch_fields)
  qed
  show "warned s' = warned s" "bin_log s' = bin_log s" "hist_log s' \<noteq> []"
    "butlast (hist_log s') = hist_log s" "proba_par (last (hist_log s')) = post_param s"
    "prev_score s' = Fin (score (last (hist_log s')))"
    if "prev_score s = PInf" "update E s = Inr s'"
    using acc[OF that] by simp_all
  show "prev_score t' = PInf" if u: "update E t = Inr t'" and e: "hist_log t' = []"
    using u
  proof (cases rule: update_InrE)
    case (bad g m u gk kl)
    then show ?thesis using e by (simp add: restore_last_fields restore_last_empty)
  next
    case (good g m u gk kl)
    then show ?thesis using e by (simp add: accept_fields)
  qed
  show "\<exists>s1. update E (GB_init E c) = Inr s1 \<and> warned s1 = [] \<and> bin_log s1 = [] \<and>
      length (hist_log s1) = 1"
    if ok: "prev_eval_ok c" and ne: "c_per_step c \<noteq> []"
  proof -
    have "count (GB_init E c) < length (per_step (GB_init E c))"
      using ne by (simp add: GB_init_fields)
    from update_total[OF run_inv_init[OF ok] this]
    obtain s1 where u: "update E (GB_init E c) = Inr s1" by blast
    have p: "prev_score (GB_init E c) = PInf" by (simp add: GB_init_fields)
    have "butlast (hist_log s1) = []" "hist_log s1 \<noteq> []"
      using acc[OF p u] by (simp_all add: GB_init_fields)
    then have "length (hist_log s1) = 1"
      by (cases "hist_log s1") (simp_all split: if_splits)
    then show ?thesis
      using u acc[OF p u] by (simp add: GB_init_fields)
  qed
qed

theorem first_step_never_bad_witness:
  "prev_score (GB_init ex_env ex_config) = PInf \<and>
   update ex_env (GB_init ex_env ex_config) = Inr ex_state1 \<and>
   \<not> is_bad_step (GB_init ex_env ex_config) (Fin 10) (Fin 1) \<and>
   warned ex_state1 = warned (GB_init ex_env ex_config) \<and>
   butlast (hist_log ex_state1) = hist_log (GB_init ex_env ex_config) \<and>
   update ex_env ex_state1 = Inr ex_state2 \<and> hist_log ex_state2 = [] \<and>
   prev_score ex_state2 = PInf \<and>
   prev_eval_ok ex_config \<and> c_per_step ex_config \<noteq> [] \<and>
   (\<exists>s1. update ex_env (GB_init ex_env ex_config) = Inr s1 \<and> warned s1 = [] \<and>
         bin_log s1 = [] \<and> length (hist_log s1) = 1)"
proof -
  have h1: "prev_score (GB_init ex_env ex_config) = PInf" by (simp add: GB_init_fields)
  have h2: "hist_log ex_state2 = []" by (simp add: ex_state2_def)
  have h3: "c_per_step ex_config \<noteq> []" by (simp add: ex_config_def)
  show ?thesis
    using first_step_never_bad[of ex_env ex_config "GB_init ex_env ex_config" "Fin 10" "Fin 1"
        ex_state1 ex_state1 ex_state2]
      h1 h2 h3 ex_step1 ex_step2 ex_prev_eval_ok
    by blast
qed

text \<open>
  C10. The stable accumulator is never truncated. A call of update that returns has
  appended the batch it drew, with its loss values, to the stable accumulator and has left
  its capacity alone, whether the step was bad (then the accumulator with densities has
  lost its last generation and does not keep the new one) or not (then it has the new
  generation too). After \<open>n\<close> calls the stable accumulator holds what it held plus \<open>n\<close>
  generations, whose sizes are the scheduled ones; a run of \<open>n\<close> scheduled steps from the
  constructor returns with exactly \<open>n\<close> generations in it.
\<close>

theorem stable_accu_never_truncated:
  "(get_score_grad E (with_batch E s) = (g, m, u) \<longrightarrow>
    grad_kl_of E (prior_param s) (post_param s) (n_grad_kl s) = (gk, kl) \<longrightarrow>
    update E s = Inr s' \<longrightarrow>
      val_gens (stable_accu s') =
        val_gens (stable_accu s) @ [(batch E s, map (loss E) (batch E s))] \<and>
      val_n_tot (stable_accu s') = val_n_tot (stable_accu s) \<and>
      (if is_bad_step s (Fin (m + temperature s * kl)) (Fin u)
       then dens_gens (accu s') = butlast (dens_gens (accu s))
       else dens_gens (accu s') = dens_gens (accu s) @
              [(batch E s, map (log_dens E (param_of (post s))) (batch E s),
                map (loss E) (batch E s))])) \<and>
   (updates E n t = Inr t' \<longrightarrow>
      (\<exists>gs. val_gens (stable_accu t') = val_gens (stable_accu t) @ gs \<and> length gs = n \<and>
            map (\<lambda>gen. length (fst gen)) gs = take n (drop (count t) (per_step t)))) \<and>
   (prev_eval_ok c \<longrightarrow> n \<le> length (c_per_step c) \<longrightarrow>
      (\<exists>r. updates E n (GB_init E c) = Inr r \<and> length (val_gens (stable_accu r)) = n \<and>
           map (\<lambda>gen. length (fst gen)) (val_gens (stable_accu r)) = take n (c_per_step c)))"
proof (intro conjI impI)
  have one: "val_gens (stable_accu s') =
        val_gens (stable_accu s) @ [(batch E s, map (loss E) (batch E s))] \<and>
      val_n_tot (stable_accu s') = val_n_tot (stable_accu s)"
    if u: "update E s = Inr s'" for s s'
    using u
    by (cases rule: update_InrE)
       (simp_all add: restore_last_fields accept_fields with_batch_accus)
  show "val_gens (stable_accu s') =
        val_gens (stable_accu s) @ [(batch E s, map (loss E) (batch E s))]"
    "val_n_tot (stable_accu s') = val_n_tot (stable_accu s)"
    if "update E s = Inr s'"
    using one[OF that] by simp_all
  show "if is_bad_step s (Fin (m + temperature s * kl)) (Fin u)
       then dens_gens (accu s') = butlast (dens_gens (accu s))
       else dens_gens (accu s') = dens_gens (accu s) @
              [(batch E s, map (log_dens E (param_of (post s))) (batch E s),
                map (loss E) (batch E s))]"
    if sg: "get_score_grad E (with_batch E s) = (g, m, u)"
      and k: "grad_kl_of E (prior_param s) (post_param s) (n_grad_kl s) = (gk, kl)"
      and u: "update E s = Inr s'"
  proof (cases "is_bad_step s (Fin (m + temperature s * kl)) (Fin u)")
    case True
    then show ?thesis using update_bad_fields(4)[OF sg k True u] by simp
  next
    case False
    then show ?thesis
      using update_good_fields(5)[OF sg k False u] by (simp add: with_batch_accus)
  qed
  have run: "\<exists>gs. val_gens (stable_accu t') = val_gens (stable_accu t) @ gs \<and> length gs = n \<and>
      map (\<lambda>gen. length (fst gen)) gs = take n (drop (count t) (per_step t))"
    if "updates E n t = Inr t'" for t t' n
    using that
  proof (induction n arbitrary: t)
    case 0
    then show ?case by simp
  next
    case (Suc n)
    then obtain t1 where u: "update E t = Inr t1" and r: "updates E n t1 = Inr t'"
      by (cases "update E t") simp_all
    have c1: "count t1 = Suc (count t)" "per_step t1 = per_step t"
      using update_frame[OF u] by simp_all
    have lt: "count t < length (per_step t)"
      using u by (cases rule: update_InrE) simp_all
    from Suc.IH[OF r] obtain gs where gs:
      "val_gens (stable_accu t') = val_gens (stable_accu t1) @ gs" "length gs = n"
      "map (\<lambda>gen. length (fst gen)) gs = take n (drop (count t1) (per_step t1))"
      by blast
    have d: "take (Suc n) (drop (count t) (per_step t)) =
        per_step t ! count t # take n (drop (Suc (count t)) (per_step t))"
      using lt by (simp add: Cons_nth_drop_Suc[symmetric])
    show ?case
      using gs one[OF u] c1 d
      by (intro exI[of _ "(batch E t, map (loss E) (batch E t)) # gs"])
         (simp add: length_batch)
  qed
  show "\<exists>gs. val_gens (stable_accu t') = val_gens (stable_accu t) @ gs \<and> length gs = n \<and>
      map (\<lambda>gen. length (fst gen)) gs = take n (drop (count t) (per_step t))"
    if "updates E n t = Inr t'"
    using run[OF that] .
  show "\<exists>r. updates E n (GB_init E c) = Inr r \<and> length (val_gens (stable_accu r)) = n \<and>
           map (\<lambda>gen. length (fst gen)) (val_gens (stable_accu r)) = take n (c_per_step c)"
    if ok: "prev_eval_ok c" and n: "n \<le> length (c_per_step c)"
  proof -
    have le: "count (GB_init E c) + n \<le> length (per_step (GB_init E c))"
      using n by (simp add: GB_init_fields)
    from updates_total[OF run_inv_init[OF ok] le]
    obtain r where r: "updates E n (GB_init E c) = Inr r" by blast
    from run[OF r] obtain gs where
      "val_gens (stable_accu r) = val_gens (stable_accu (GB_init E c)) @ gs" "length gs = n"
      "map (\<lambda>gen. length (fst gen)) gs =
         take n (drop (count (GB_init E c)) (per_step (GB_init E c)))"
      by blast
    then show ?thesis
      using r
      by (intro exI[of _ r])
         (simp add: GB_init_fields set_up_accu_stable new_val_def)
  qed
qed

theorem stable_accu_never_truncated_witness:
  "get_score_grad ex_env (with_batch ex_env ex_state1) = ([1, 1], 10, 1) \<and>
   grad_kl_of ex_env (prior_param ex_state1) (post_param ex_state1) (n_grad_kl ex_state1) =
     ([1, 2], 0) \<and>
   update ex_env ex_state1 = Inr ex_state2 \<and>
   is_bad_step ex_state1 (Fin (10 + temperature ex_state1 * 0)) (Fin 1) \<and>
   val_gens (stable_accu ex_state2) =
     val_gens (stable_accu ex_state1) @
       [(batch ex_env ex_state1, map (loss ex_env) (batch ex_env ex_state1))] \<and>
   dens_gens (accu ex_state2) = butlast (dens_gens (accu ex_state1)) \<and>
   updates ex_env 3 (GB_init ex_env ex_config) = Inr ex_state3 \<and>
   (\<exists>gs. val_gens (stable_accu ex_state3) =
           val_gens (stable_accu (GB_init ex_env ex_config)) @ gs \<and> length gs = 3) \<and>
   prev_eval_ok ex_config \<and> 3 \<le> length (c_per_step ex_config) \<and>
   (\<exists>r. updates ex_env 3 (GB_init ex_env ex_config) = Inr r \<and>
        length (val_gens (stable_accu r)) = 3)"
proof -
  note T = stable_accu_never_truncated[of ex_env ex_state1 "[1, 1]" 10 1 "[1, 2]" 0 ex_state2
      3 "GB_init ex_env ex_config" ex_state3 ex_config]
  have "val_gens (stable_accu ex_state2) =
     val_gens (stable_accu ex_state1) @
       [(batch ex_env ex_state1, map (loss ex_env) (batch ex_env ex_state1))] \<and>
     val_n_tot (stable_accu ex_state2) = val_n_tot (stable_accu ex_state1) \<and>
     (if is_bad_step ex_state1 (Fin (10 + temperature ex_state1 * 0)) (Fin 1)
      then dens_gens (accu ex_state2) = butlast (dens_gens (accu ex_state1))
      else dens_gens (accu ex_state2) = dens_gens (accu ex_state1) @
              [(batch ex_env ex_state1,
                map (log_dens ex_env (param_of (post ex_state1))) (batch ex_env ex_state1),
                map (loss ex_env) (batch ex_env ex_state1))])"
    using T ex_sg1 ex_kl1 ex_step2 by blast
  then have a: "val_gens (stable_accu ex_state2) =
     val_gens (stable_accu ex_state1) @
       [(batch ex_env ex_state1, map (loss ex_env) (batch ex_env ex_state1))]"
    and b: "dens_gens (accu ex_state2) = butlast (dens_gens (accu ex_state1))"
    using ex_bad1 by (simp_all only: if_True)
  have c: "\<exists>gs. val_gens (stable_accu ex_state3) =
           val_gens (stable_accu (GB_init ex_env ex_config)) @ gs \<and> length gs = 3"
    using T ex_run3 by blast
  have d: "\<exists>r. updates ex_env 3 (GB_init ex_env ex_config) = Inr r \<and>
        length (val_gens (stable_accu r)) = 3"
    using T ex_prev_eval_ok ex_sched3 by blast
  show ?thesis
    using a b c d ex_sg1 ex_kl1 ex_step2 ex_bad1 ex_run3 ex_prev_eval_ok ex_sched3 by blast
qed

end
